theory Spec2Isabelle
  imports Main "HOL-Library.Sublist" "HOL-Library.AList" "HOL-Library.Word"
begin

unbundle bit_operations_syntax

section \<open>The spell-check dictionary installer (scripts/spellcheck-installer.py)\<close>

text \<open>
  The script fetches a listing page, turns its file links into a dictionary from
  language-file names to relative paths, downloads the chosen file (base64 text), decodes
  it, and writes it into the directories it selects. The model below follows the script
  function by function. Everything outside the script is explicit:
  \<^item> the network, the HTML parser and the home-directory lookup are fields of a \<open>host\<close>
    record (they are the outside world, not code of the script); the library functions
    whose result decides a claim (\<open>str.replace\<close>, \<open>os.path.join\<close>,
    \<open>base64.b64decode\<close>) are written out;
  \<^item> the file system, the list of URLs requested and the lines printed are fields of a
    \<open>world\<close> record that every effectful function takes and returns;
  \<^item> every exception is a value of \<open>error\<close>, and an effectful function returns the world
    it leaves behind together with \<open>Inl error\<close> or \<open>Inr result\<close>.
\<close>

subsection \<open>Data\<close>

type_synonym byte = "8 word"

text \<open>The response of \<open>requests.get\<close>: the fields the script reads.\<close>

record response =
  status_code :: int
  response_text :: string

text \<open>
  The exceptions a run can end with: the two \<open>raise Exception("Failed to load page ...")\<close>
  of the script (with the URL), the \<open>KeyError\<close> of \<open>links_dict[lang_code]\<close>, the error of
  \<open>base64.b64decode\<close>, and the \<open>OSError\<close> of \<open>open(path, "wb")\<close> (with the path).
\<close>

datatype error =
    FetchError string
  | KeyError string
  | DecodeError
  | InstallError string

text \<open>One constructor per \<open>print\<close> call of the script, in the order of the source.\<close>

datatype message =
    Saved string string
  | AvailableHeader
  | AvailableNames "string list"
  | ExampleUsage
  | FirstArgumentHint
  | UnavailableCode
  | UsingCustomDirectory string
  | CustomDirectoryMissing
  | NoConfigurationDirectory
  | CouldNotInstall
  | RestartChromium

text \<open>
  \<open>links_dict\<close>: a Python dict keeps its keys in insertion order and a second store under
  a key replaces the value in place, which is what \<open>AList.update\<close> does on an association
  list. A value is the anchor's \<open>href\<close>, which \<open>link.get("href")\<close> gives as \<open>None\<close> when
  the attribute is missing.
\<close>

type_synonym links = "(string \<times> string option) list"

text \<open>
  What the script uses and does not define:
  \<^item> \<open>http_get\<close>: \<open>requests.get(url)\<close>, taken to complete with a response;
  \<^item> \<open>find_file_links\<close>: \<open>BeautifulSoup(text, "html.parser").find_all("a",
    class_="FileList-itemLink")\<close>, each anchor given as its \<open>get_text(strip=True)\<close> and
    its \<open>get("href")\<close>, in document order;
  \<^item> \<open>tilde_home\<close>: what \<open>os.path.expanduser\<close> returns for a path that begins with a
    tilde (the home directory lookup).
\<close>

record host =
  http_get :: "string \<Rightarrow> response"
  find_file_links :: "string \<Rightarrow> (string \<times> string option) list"
  tilde_home :: "string \<Rightarrow> string"

text \<open>
  The world a run changes:
  \<^item> \<open>path_exists\<close>: \<open>os.path.exists\<close>;
  \<^item> \<open>can_open_wb\<close>: whether \<open>open(path, "wb")\<close> and the write succeed (permissions, a
    missing parent directory);
  \<^item> \<open>files\<close>: the content of the files written;
  \<^item> \<open>requested\<close>: the URLs fetched, oldest first;
  \<^item> \<open>printed\<close>: the lines printed, oldest first.
\<close>

record world =
  path_exists :: "string \<Rightarrow> bool"
  can_open_wb :: "string \<Rightarrow> bool"
  files :: "string \<Rightarrow> byte list option"
  requested :: "string list"
  printed :: "message list"

subsection \<open>Constants and library functions\<close>

definition repo_url :: string where
  "repo_url = ''https://chromium.googlesource.com''"

definition file_ext :: string where
  "file_ext = ''.bdic''"

text \<open>\<open>str.startswith\<close> and \<open>str.endswith\<close>.\<close>

definition startswith :: "string \<Rightarrow> string \<Rightarrow> bool" where
  "startswith s p = prefix p s"

definition endswith :: "string \<Rightarrow> string \<Rightarrow> bool" where
  "endswith s p = suffix p s"

text \<open>
  \<open>s.replace(old, new)\<close>: every occurrence of \<open>old\<close>, found from the left and not
  overlapping, is replaced. With an empty \<open>old\<close> Python puts \<open>new\<close> before every
  character and at the end.
\<close>

function replace_from :: "string \<Rightarrow> string \<Rightarrow> string \<Rightarrow> string" where
  "replace_from old new [] = []"
| "replace_from old new (c # cs) =
     (if old \<noteq> [] \<and> prefix old (c # cs)
      then new @ replace_from old new (drop (length old) (c # cs))
      else c # replace_from old new cs)"
  by pat_completeness auto
termination
  by (relation "measure (\<lambda>(old, new, s). length s)") auto

definition replace :: "string \<Rightarrow> string \<Rightarrow> string \<Rightarrow> string" where
  "replace s old new =
     (if old = [] then new @ concat (map (\<lambda>c. c # new) s)
      else replace_from old new s)"

text \<open>
  \<open>os.path.join(a, b)\<close> on POSIX: an absolute \<open>b\<close> (or an empty \<open>a\<close>) discards \<open>a\<close>;
  otherwise one separator stands between the two.
\<close>

definition os_path_join :: "string \<Rightarrow> string \<Rightarrow> string" where
  "os_path_join a b =
     (if startswith b ''/'' \<or> a = [] then b
      else if endswith a ''/'' then a @ b
      else a @ ''/'' @ b)"

text \<open>
  \<open>os.path.expanduser(path)\<close>: a path that does not begin with a tilde is returned
  unchanged; the expansion of the others is the host's, and it is never empty (the
  library returns \<open>(userhome + path[i:]) or "/"\<close>, or the path itself).
\<close>

definition os_path_expanduser :: "host \<Rightarrow> string \<Rightarrow> string" where
  "os_path_expanduser h path =
     (if startswith path ''~''
      then (if tilde_home h path = [] then ''/'' else tilde_home h path)
      else path)"

definition os_path_exists :: "world \<Rightarrow> string \<Rightarrow> bool" where
  "os_path_exists w path = path_exists w path"

definition print :: "message \<Rightarrow> world \<Rightarrow> world" where
  "print m w = w\<lparr>printed := printed w @ [m]\<rparr>"

text \<open>\<open>requests.get(url)\<close>: the response, and the world with the request recorded.\<close>

definition requests_get :: "host \<Rightarrow> string \<Rightarrow> world \<Rightarrow> world \<times> response" where
  "requests_get h url w = (w\<lparr>requested := requested w @ [url]\<rparr>, http_get h url)"

text \<open>The f-string rendering of a dictionary value: \<open>None\<close> prints as \<open>None\<close>.\<close>

definition format_href :: "string option \<Rightarrow> string" where
  "format_href href = (case href of None \<Rightarrow> ''None'' | Some p \<Rightarrow> p)"

subsection \<open>base64.b64decode\<close>

text \<open>
  The script calls \<open>base64.b64decode(base64_lang_file)\<close> with the default
  \<open>validate=False\<close>. The library first turns the string into ASCII bytes (a character
  outside ASCII is a \<open>ValueError\<close>) and then runs \<open>binascii.a2b_base64\<close> in its
  non-strict mode, which is the loop below (CPython 3.11):
  \<^item> a character that is neither \<open>=\<close> nor in the base64 alphabet is skipped;
  \<^item> a \<open>=\<close> counts as padding only when two or three characters of the current group
    of four were read; once the group is filled up by padding the decoding stops and
    what was decoded is the result, whatever follows;
  \<^item> each alphabet character gives six bits; the second, third and fourth character of
    a group each complete one byte;
  \<^item> at the end of the input a group that was begun and not completed is an error
    (\<open>binascii.Error\<close>).
  \<open>None\<close> stands for either exception.
\<close>

definition table_a2b_base64 :: "char \<Rightarrow> 8 word option" where
  "table_a2b_base64 c =
     (let n = (of_char c :: nat)
      in if 65 \<le> n \<and> n \<le> 90 then Some (of_nat (n - 65))
         else if 97 \<le> n \<and> n \<le> 122 then Some (of_nat (n - 71))
         else if 48 \<le> n \<and> n \<le> 57 then Some (of_nat (n + 4))
         else if n = 43 then Some 62
         else if n = 47 then Some 63
         else None)"

fun a2b_base64_loop ::
  "string \<Rightarrow> nat \<Rightarrow> 8 word \<Rightarrow> nat \<Rightarrow> byte list \<Rightarrow> byte list option" where
  "a2b_base64_loop [] quad_pos leftchar pads bin_data =
     (if quad_pos \<noteq> 0 then None else Some bin_data)"
| "a2b_base64_loop (c # cs) quad_pos leftchar pads bin_data =
     (if c = CHR ''=''
      then (if 2 \<le> quad_pos
            then (if 4 \<le> quad_pos + (pads + 1) then Some bin_data
                  else a2b_base64_loop cs quad_pos leftchar (pads + 1) bin_data)
            else a2b_base64_loop cs quad_pos leftchar pads bin_data)
      else
        (case table_a2b_base64 c of
           None \<Rightarrow> a2b_base64_loop cs quad_pos leftchar pads bin_data
         | Some this_ch \<Rightarrow>
             (if quad_pos = 0 then a2b_base64_loop cs 1 this_ch 0 bin_data
              else if quad_pos = 1
              then a2b_base64_loop cs 2 (this_ch AND 15) 0
                     (bin_data @ [push_bit 2 leftchar OR drop_bit 4 this_ch])
              else if quad_pos = 2
              then a2b_base64_loop cs 3 (this_ch AND 3) 0
                     (bin_data @ [push_bit 4 leftchar OR drop_bit 2 this_ch])
              else a2b_base64_loop cs 0 0 0
                     (bin_data @ [push_bit 6 leftchar OR this_ch]))))"

definition a2b_base64 :: "string \<Rightarrow> byte list option" where
  "a2b_base64 s = a2b_base64_loop s 0 0 0 []"

definition b64decode :: "string \<Rightarrow> byte list option" where
  "b64decode s =
     (if list_ex (\<lambda>c. 127 < (of_char c :: nat)) s then None else a2b_base64 s)"

text \<open>
  The encoding the decoder undoes (RFC 4648): three bytes give four characters of the
  alphabet, and a last group of one or two bytes is filled up with \<open>=\<close>.
\<close>

definition table_b2a_base64 :: "8 word \<Rightarrow> char" where
  "table_b2a_base64 s =
     (let n = unat s
      in if n < 26 then char_of (n + 65)
         else if n < 52 then char_of (n + 71)
         else if n < 62 then char_of (n - 4)
         else if n = 62 then CHR ''+''
         else CHR ''/'')"

fun b64encode :: "byte list \<Rightarrow> string" where
  "b64encode [] = []"
| "b64encode [a] =
     [table_b2a_base64 (drop_bit 2 a), table_b2a_base64 (push_bit 4 (a AND 3)),
      CHR ''='', CHR ''='']"
| "b64encode [a, b] =
     [table_b2a_base64 (drop_bit 2 a),
      table_b2a_base64 (push_bit 4 (a AND 3) OR drop_bit 4 b),
      table_b2a_base64 (push_bit 2 (b AND 15)), CHR ''='']"
| "b64encode (a # b # c # bs) =
     [table_b2a_base64 (drop_bit 2 a),
      table_b2a_base64 (push_bit 4 (a AND 3) OR drop_bit 4 b),
      table_b2a_base64 (push_bit 2 (b AND 15) OR drop_bit 6 c),
      table_b2a_base64 (c AND 63)] @ b64encode bs"

text \<open>The characters the decoder does not skip: the padding and the alphabet.\<close>

definition base64_significant :: "char \<Rightarrow> bool" where
  "base64_significant c = (c = CHR ''='' \<or> table_a2b_base64 c \<noteq> None)"

text \<open>
  The statuses HTTP counts as successful are the codes 200 to 299; the script's own test
  (lines 56 and 80) is \<open>status_code != 200\<close>.
\<close>

definition http_success :: "int \<Rightarrow> bool" where
  "http_success status = (200 \<le> status \<and> status < 300)"

subsection \<open>get\_lang\_file\_links (lines 46-69)\<close>

definition listing_url :: string where
  "listing_url = repo_url @ ''/chromium/deps/hunspell_dictionaries/+/master''"

text \<open>
  The dict comprehension of lines 63-67 over the anchors: an anchor whose label ends with
  \<open>file_ext\<close> is stored under \<open>link_text.replace(file_ext, "")\<close>.
\<close>

definition links_dict_of :: "(string \<times> string option) list \<Rightarrow> links" where
  "links_dict_of file_links =
     fold (\<lambda>(link_text, href) d.
             if endswith link_text file_ext
             then AList.update (replace link_text file_ext []) href d
             else d)
          file_links []"

definition get_lang_file_links :: "host \<Rightarrow> world \<Rightarrow> world \<times> (error + links)" where
  "get_lang_file_links h w =
     (let url = listing_url;
          (w1, response) = requests_get h url w
      in if status_code response \<noteq> 200 then (w1, Inl (FetchError url))
         else (w1, Inr (links_dict_of (find_file_links h (response_text response)))))"

subsection \<open>download\_lang\_file\_binary (lines 72-83)\<close>

definition download_url :: "string option \<Rightarrow> string" where
  "download_url href = repo_url @ format_href href @ ''?format=TEXT''"

definition download_lang_file_binary ::
  "host \<Rightarrow> links \<Rightarrow> string \<Rightarrow> world \<Rightarrow> world \<times> (error + string)" where
  "download_lang_file_binary h links_dict lang_code w =
     (case map_of links_dict lang_code of
        None \<Rightarrow> (w, Inl (KeyError lang_code))
      | Some href \<Rightarrow>
          (let url = download_url href;
               (w1, response) = requests_get h url w
           in if status_code response \<noteq> 200 then (w1, Inl (FetchError url))
              else (w1, Inr (response_text response))))"

subsection \<open>install\_lang\_file (lines 86-94)\<close>

definition install_lang_file ::
  "string \<Rightarrow> byte list \<Rightarrow> string \<Rightarrow> world \<Rightarrow> world \<times> (error + bool)" where
  "install_lang_file lang_code lang_file_binary directory_path w =
     (let dictionary_file_path = os_path_join directory_path (lang_code @ file_ext)
      in if can_open_wb w dictionary_file_path
         then (print (Saved (lang_code @ file_ext) dictionary_file_path)
                 (w\<lparr>files := (files w)(dictionary_file_path := Some lang_file_binary),
                    path_exists := (path_exists w)(dictionary_file_path := True)\<rparr>),
               Inr True)
         else (w, Inl (InstallError dictionary_file_path)))"

subsection \<open>print\_available (lines 97-101)\<close>

definition print_available :: "links \<Rightarrow> world \<Rightarrow> world" where
  "print_available links_dict w =
     print ExampleUsage (print (AvailableNames (map fst links_dict)) (print AvailableHeader w))"

subsection \<open>main (lines 104-180)\<close>

text \<open>Python's truth value of \<open>custom_install_directory\<close>: \<open>None\<close> and \<open>""\<close> are false.\<close>

definition truthy :: "string option \<Rightarrow> bool" where
  "truthy custom_install_directory =
     (case custom_install_directory of None \<Rightarrow> False | Some d \<Rightarrow> d \<noteq> [])"

text \<open>Lines 122-128: the second argument, expanded, and the notice printed for it.\<close>

definition custom_directory_of :: "host \<Rightarrow> string list \<Rightarrow> string option" where
  "custom_directory_of h argv =
     (if 3 \<le> length argv then Some (os_path_expanduser h (argv ! 2)) else None)"

definition announce_custom :: "string option \<Rightarrow> world \<Rightarrow> world" where
  "announce_custom custom_install_directory w =
     (case custom_install_directory of
        None \<Rightarrow> w
      | Some d \<Rightarrow> print (UsingCustomDirectory d) w)"

text \<open>Lines 130-132: the download and the base64 decoding of its body.\<close>

definition download_and_decode ::
  "host \<Rightarrow> links \<Rightarrow> string \<Rightarrow> world \<Rightarrow> world \<times> (error + byte list)" where
  "download_and_decode h links_dict lang_code w =
     (case download_lang_file_binary h links_dict lang_code w of
        (w1, Inl err) \<Rightarrow> (w1, Inl err)
      | (w1, Inr base64_lang_file) \<Rightarrow>
          (case b64decode base64_lang_file of
             None \<Rightarrow> (w1, Inl DecodeError)
           | Some lang_file_binary \<Rightarrow> (w1, Inr lang_file_binary)))"

text \<open>Lines 134-146: the candidate directories and whether they exist.\<close>

definition os_install_dir :: "host \<Rightarrow> string" where
  "os_install_dir h = os_path_expanduser h ''~/.config/chromium/Dictionaries/''"

definition flatpak_install_dir :: "host \<Rightarrow> string" where
  "flatpak_install_dir h =
     os_path_expanduser h
       ''~/.var/app/com.github.Eloston.UngoogledChromium/config/chromium/Dictionaries/''"

definition custom_directory_exists :: "string option \<Rightarrow> world \<Rightarrow> bool" where
  "custom_directory_exists custom_install_directory w =
     (case custom_install_directory of
        None \<Rightarrow> False
      | Some d \<Rightarrow> d \<noteq> [] \<and> os_path_exists w d)"

text \<open>
  The string of a \<open>custom_install_directory\<close> that is not \<open>None\<close>; the script uses it
  as a path only after its truth value was tested, which excludes \<open>None\<close>.
\<close>

definition the_directory :: "string option \<Rightarrow> string" where
  "the_directory custom_install_directory =
     (case custom_install_directory of None \<Rightarrow> [] | Some d \<Rightarrow> d)"

text \<open>
  Lines 153-162, the branch without a custom directory: the file goes into each of the
  two conventional directories that exists, the native one first. An exception of the
  first write ends the run before the second.
\<close>

definition install_conventional ::
  "host \<Rightarrow> string \<Rightarrow> byte list \<Rightarrow> bool \<Rightarrow> bool \<Rightarrow> bool \<Rightarrow> world
     \<Rightarrow> world \<times> (error + bool)" where
  "install_conventional h lang_code lang_file_binary os_install_exists flatpak_install_exists
       lang_file_installed w =
     (case (if os_install_exists
            then install_lang_file lang_code lang_file_binary (os_install_dir h) w
            else (w, Inr lang_file_installed)) of
        (w1, Inl err) \<Rightarrow> (w1, Inl err)
      | (w1, Inr installed1) \<Rightarrow>
          (if flatpak_install_exists
           then install_lang_file lang_code lang_file_binary (flatpak_install_dir h) w1
           else (w1, Inr installed1)))"

text \<open>
  Lines 134-162: where the file is installed. The existence tests are all made before
  the first write (in the world \<open>w\<close>); the result is \<open>lang_file_installed\<close>.
\<close>

definition install_files ::
  "host \<Rightarrow> string \<Rightarrow> byte list \<Rightarrow> string option \<Rightarrow> world \<Rightarrow> world \<times> (error + bool)" where
  "install_files h lang_code lang_file_binary custom_install_directory w =
     (let lang_file_installed = False;
          os_install_exists = os_path_exists w (os_install_dir h);
          flatpak_install_exists = os_path_exists w (flatpak_install_dir h)
      in if truthy custom_install_directory
            \<and> custom_directory_exists custom_install_directory w
         then install_lang_file lang_code lang_file_binary
                (the_directory custom_install_directory) w
         else if \<not> truthy custom_install_directory
         then install_conventional h lang_code lang_file_binary os_install_exists
                flatpak_install_exists lang_file_installed w
         else (w, Inr lang_file_installed))"

text \<open>Lines 164-178: the one line that reports the outcome.\<close>

definition report :: "string option \<Rightarrow> bool \<Rightarrow> bool \<Rightarrow> bool \<Rightarrow> bool \<Rightarrow> message" where
  "report custom_install_directory custom_exists os_install_exists flatpak_install_exists
       lang_file_installed =
     (if truthy custom_install_directory \<and> \<not> custom_exists then CustomDirectoryMissing
      else if \<not> flatpak_install_exists \<and> \<not> os_install_exists then NoConfigurationDirectory
      else if \<not> lang_file_installed then CouldNotInstall
      else RestartChromium)"

text \<open>
  Lines 130-180, for a known \<open>lang_code\<close>: download, decode, install, report. The run
  returns \<open>links_dict\<close>.
\<close>

definition download_and_install ::
  "host \<Rightarrow> links \<Rightarrow> string \<Rightarrow> string option \<Rightarrow> world \<Rightarrow> world \<times> (error + links option)" where
  "download_and_install h links_dict lang_code custom_install_directory w =
     (case download_and_decode h links_dict lang_code w of
        (w1, Inl err) \<Rightarrow> (w1, Inl err)
      | (w1, Inr lang_file_binary) \<Rightarrow>
          (case install_files h lang_code lang_file_binary custom_install_directory w1 of
             (w2, Inl err) \<Rightarrow> (w2, Inl err)
           | (w2, Inr lang_file_installed) \<Rightarrow>
               (print (report custom_install_directory
                         (custom_directory_exists custom_install_directory w1)
                         (os_path_exists w1 (os_install_dir h))
                         (os_path_exists w1 (flatpak_install_dir h))
                         lang_file_installed) w2,
                Inr (Some links_dict))))"

text \<open>
  \<open>main\<close>, with \<open>argv\<close> standing for \<open>sys.argv\<close> (the script's own name first). The two
  early returns give \<open>None\<close>.
\<close>

definition main :: "host \<Rightarrow> string list \<Rightarrow> world \<Rightarrow> world \<times> (error + links option)" where
  "main h argv w =
     (case get_lang_file_links h w of
        (w1, Inl err) \<Rightarrow> (w1, Inl err)
      | (w1, Inr links_dict) \<Rightarrow>
          (if length argv < 2
           then (print_available links_dict (print FirstArgumentHint w1), Inr None)
           else
             (let lang_code = argv ! 1
              in if map_of links_dict lang_code = None
                 then (print_available links_dict (print UnavailableCode w1), Inr None)
                 else
                   (let custom_install_directory = custom_directory_of h argv
                    in download_and_install h links_dict lang_code custom_install_directory
                         (announce_custom custom_install_directory w1)))))"

subsection \<open>Observations of a run\<close>

text \<open>What a run prints: the lines it adds to those printed before.\<close>

definition run_output :: "host \<Rightarrow> string list \<Rightarrow> world \<Rightarrow> message list" where
  "run_output h argv w = drop (length (printed w)) (printed (fst (main h argv w)))"

text \<open>The dictionary a run works with once the listing page was fetched.\<close>

definition fetched_listing :: "host \<Rightarrow> links" where
  "fetched_listing h =
     links_dict_of (find_file_links h (response_text (http_get h listing_url)))"

text \<open>The file name and the path \<open>install_lang_file\<close> writes (line 88).\<close>

definition dictionary_file_path :: "string \<Rightarrow> string \<Rightarrow> string" where
  "dictionary_file_path directory_path lang_code =
     os_path_join directory_path (lang_code @ file_ext)"

subsection \<open>A concrete host and world\<close>

text \<open>
  A host whose listing page has one dictionary, \<open>en-GB-10-1.bdic\<close>, whose every request
  is answered with status 200 and the body \<open>QUJD\<close> (the base64 of three bytes), and whose
  home directory
  is \<open>/home/u\<close>; and a world where only the listed paths exist, every file can be
  written, and nothing was fetched, written or printed yet.
\<close>

definition example_host :: host where
  "example_host =
     \<lparr>http_get = (\<lambda>url. \<lparr>status_code = 200, response_text = ''QUJD''\<rparr>),
      find_file_links = (\<lambda>page. [(''en-GB-10-1.bdic'', Some ''/d/en-GB-10-1.bdic'')]),
      tilde_home = (\<lambda>path. ''/home/u'' @ drop 1 path)\<rparr>"

definition example_world :: "string list \<Rightarrow> world" where
  "example_world existing =
     \<lparr>path_exists = (\<lambda>path. path \<in> set existing),
      can_open_wb = (\<lambda>path. True),
      files = (\<lambda>path. None),
      requested = [],
      printed = []\<rparr>"

text \<open>The same host with every request answered by status 404.\<close>

definition failing_host :: host where
  "failing_host =
     example_host\<lparr>http_get := (\<lambda>url. \<lparr>status_code = 404, response_text = []\<rparr>)\<rparr>"

text \<open>
  The same host with every request answered by status 204 (No Content), and with every
  request answered by status 200 and the body \<open>Not found\<close>.
\<close>

definition no_content_host :: host where
  "no_content_host =
     example_host\<lparr>http_get := (\<lambda>url. \<lparr>status_code = 204, response_text = []\<rparr>)\<rparr>"

definition not_found_host :: host where
  "not_found_host =
     example_host\<lparr>http_get := (\<lambda>url. \<lparr>status_code = 200, response_text = ''Not found''\<rparr>)\<rparr>"

section \<open>Properties\<close>

subsection \<open>Each function as one equation\<close>

lemma printed_print: "printed (print m w) = printed w @ [m]"
  by (simp add: print_def)

lemma get_lang_file_links_eq:
  "get_lang_file_links h w =
     (w\<lparr>requested := requested w @ [listing_url]\<rparr>,
      if status_code (http_get h listing_url) = 200 then Inr (fetched_listing h)
      else Inl (FetchError listing_url))"
  by (simp add: get_lang_file_links_def requests_get_def fetched_listing_def Let_def)

lemma download_lang_file_binary_eq:
  "download_lang_file_binary h links_dict lang_code w =
     (case map_of links_dict lang_code of
        None \<Rightarrow> (w, Inl (KeyError lang_code))
      | Some href \<Rightarrow>
          (w\<lparr>requested := requested w @ [download_url href]\<rparr>,
           if status_code (http_get h (download_url href)) = 200
           then Inr (response_text (http_get h (download_url href)))
           else Inl (FetchError (download_url href))))"
  by (simp add: download_lang_file_binary_def requests_get_def Let_def split: option.split)

lemma download_and_decode_eq:
  "download_and_decode h links_dict lang_code w =
     (case map_of links_dict lang_code of
        None \<Rightarrow> (w, Inl (KeyError lang_code))
      | Some href \<Rightarrow>
          (w\<lparr>requested := requested w @ [download_url href]\<rparr>,
           if status_code (http_get h (download_url href)) = 200
           then (case b64decode (response_text (http_get h (download_url href))) of
                   None \<Rightarrow> Inl DecodeError
                 | Some lang_file_binary \<Rightarrow> Inr lang_file_binary)
           else Inl (FetchError (download_url href))))"
  by (simp add: download_and_decode_def download_lang_file_binary_eq split: option.split)

lemma install_lang_file_eq:
  "install_lang_file lang_code lang_file_binary directory_path w =
     (if can_open_wb w (dictionary_file_path directory_path lang_code)
      then (w\<lparr>files := (files w)(dictionary_file_path directory_path lang_code
                                  := Some lang_file_binary),
              path_exists := (path_exists w)(dictionary_file_path directory_path lang_code
                                  := True),
              printed := printed w
                 @ [Saved (lang_code @ file_ext) (dictionary_file_path directory_path lang_code)]\<rparr>,
            Inr True)
      else (w, Inl (InstallError (dictionary_file_path directory_path lang_code))))"
  by (simp add: install_lang_file_def dictionary_file_path_def print_def Let_def)

lemma install_files_custom:
  "d \<noteq> [] \<Longrightarrow>
   install_files h lang_code lang_file_binary (Some d) w =
     (if path_exists w d then install_lang_file lang_code lang_file_binary d w
      else (w, Inr False))"
  by (simp add: install_files_def truthy_def custom_directory_exists_def os_path_exists_def
      the_directory_def)

lemma install_files_no_custom:
  "\<not> truthy cu \<Longrightarrow>
   install_files h lang_code lang_file_binary cu w =
     install_conventional h lang_code lang_file_binary
       (path_exists w (os_install_dir h)) (path_exists w (flatpak_install_dir h)) False w"
  by (simp add: install_files_def os_path_exists_def)

lemma main_eq:
  "main h argv w =
     (if status_code (http_get h listing_url) \<noteq> 200
      then (w\<lparr>requested := requested w @ [listing_url]\<rparr>, Inl (FetchError listing_url))
      else if length argv < 2
      then (print_available (fetched_listing h)
              (print FirstArgumentHint (w\<lparr>requested := requested w @ [listing_url]\<rparr>)),
            Inr None)
      else if map_of (fetched_listing h) (argv ! 1) = None
      then (print_available (fetched_listing h)
              (print UnavailableCode (w\<lparr>requested := requested w @ [listing_url]\<rparr>)),
            Inr None)
      else download_and_install h (fetched_listing h) (argv ! 1) (custom_directory_of h argv)
             (announce_custom (custom_directory_of h argv)
                (w\<lparr>requested := requested w @ [listing_url]\<rparr>)))"
  by (simp add: main_def get_lang_file_links_eq Let_def)

subsection \<open>The result of the installation and what a run prints\<close>

lemma install_lang_file_Inr:
  "install_lang_file lang_code lang_file_binary directory_path w = (w', Inr b) \<Longrightarrow> b"
  by (simp add: install_lang_file_eq split: if_splits)

lemma install_lang_file_printed:
  "install_lang_file lang_code lang_file_binary directory_path w = (w', r) \<Longrightarrow>
     \<exists>out. printed w' = printed w @ out \<and> CouldNotInstall \<notin> set out"
  by (auto simp add: install_lang_file_eq split: if_splits)

lemma install_conventional_Inr:
  "install_conventional h lang_code lang_file_binary oe fe False w = (w', Inr b) \<Longrightarrow>
     b = (oe \<or> fe)"
  by (auto simp add: install_conventional_def install_lang_file_eq split: if_splits)

lemma install_conventional_printed:
  "install_conventional h lang_code lang_file_binary oe fe False w = (w', r) \<Longrightarrow>
     \<exists>out. printed w' = printed w @ out \<and> CouldNotInstall \<notin> set out"
  by (auto simp add: install_conventional_def install_lang_file_eq split: if_splits)

lemma install_files_Inr:
  assumes "install_files h lang_code lang_file_binary cu w = (w', Inr b)"
  shows "b = (if truthy cu then custom_directory_exists cu w
              else path_exists w (os_install_dir h) \<or> path_exists w (flatpak_install_dir h))"
proof (cases "truthy cu")
  case True
  then obtain d where cu: "cu = Some d" "d \<noteq> []"
    by (auto simp: truthy_def split: option.splits)
  with assms show ?thesis
    by (auto simp: install_files_custom custom_directory_exists_def os_path_exists_def truthy_def
        dest: install_lang_file_Inr split: if_splits)
next
  case False
  with assms show ?thesis
    by (simp add: install_files_no_custom install_conventional_Inr)
qed

lemma install_files_printed:
  assumes "install_files h lang_code lang_file_binary cu w = (w', r)"
  shows "\<exists>out. printed w' = printed w @ out \<and> CouldNotInstall \<notin> set out"
proof (cases "truthy cu")
  case True
  then obtain d where cu: "cu = Some d" "d \<noteq> []"
    by (auto simp: truthy_def split: option.splits)
  with assms show ?thesis
    by (auto simp: install_files_custom dest: install_lang_file_printed split: if_splits)
next
  case False
  with assms show ?thesis
    by (simp add: install_files_no_custom install_conventional_printed)
qed

lemma report_not_CouldNotInstall:
  "report cu (custom_directory_exists cu w) oe fe
     (if truthy cu then custom_directory_exists cu w else oe \<or> fe) \<noteq> CouldNotInstall"
  by (simp add: report_def)

lemma download_and_install_printed:
  assumes run: "download_and_install h links_dict lang_code cu w = (w', r)"
  shows "\<exists>out. printed w' = printed w @ out \<and> CouldNotInstall \<notin> set out"
proof -
  obtain w1 r1 where dd: "download_and_decode h links_dict lang_code w = (w1, r1)"
    by (cases "download_and_decode h links_dict lang_code w")
  have p1: "printed w1 = printed w"
    using dd by (auto simp: download_and_decode_eq split: option.splits)
  show ?thesis
  proof (cases r1)
    case (Inl err)
    with run dd p1 show ?thesis by (auto simp: download_and_install_def)
  next
    case decoded: (Inr lang_file_binary)
    obtain w2 r2 where inst: "install_files h lang_code lang_file_binary cu w1 = (w2, r2)"
      by (cases "install_files h lang_code lang_file_binary cu w1")
    from install_files_printed [OF inst] obtain out
      where out: "printed w2 = printed w1 @ out" "CouldNotInstall \<notin> set out" by blast
    show ?thesis
    proof (cases r2)
      case (Inl err)
      with run dd decoded inst out p1 show ?thesis by (auto simp: download_and_install_def)
    next
      case (Inr b)
      note b = install_files_Inr [OF inst [unfolded Inr]]
      have "report cu (custom_directory_exists cu w1) (os_path_exists w1 (os_install_dir h))
              (os_path_exists w1 (flatpak_install_dir h)) b \<noteq> CouldNotInstall"
        unfolding b os_path_exists_def by (rule report_not_CouldNotInstall)
      with run dd decoded inst Inr out p1 show ?thesis
        by (auto simp: download_and_install_def printed_print)
    qed
  qed
qed

lemma main_printed:
  "\<exists>out. printed (fst (main h argv w)) = printed w @ out \<and> CouldNotInstall \<notin> set out"
proof (cases "status_code (http_get h listing_url) = 200")
  case False
  then show ?thesis by (simp add: main_eq)
next
  case ok: True
  show ?thesis
  proof (cases "length argv < 2 \<or> map_of (fetched_listing h) (argv ! 1) = None")
    case True
    with ok show ?thesis
      by (auto simp: main_eq print_available_def printed_print)
  next
    case False
    let ?w1 = "announce_custom (custom_directory_of h argv)
                 (w\<lparr>requested := requested w @ [listing_url]\<rparr>)"
    obtain w' r where run: "download_and_install h (fetched_listing h) (argv ! 1)
          (custom_directory_of h argv) ?w1 = (w', r)"
      by (cases "download_and_install h (fetched_listing h) (argv ! 1)
          (custom_directory_of h argv) ?w1")
    from download_and_install_printed [OF run] obtain out
      where out: "printed w' = printed ?w1 @ out" "CouldNotInstall \<notin> set out" by blast
    have "\<exists>pre. printed ?w1 = printed w @ pre \<and> CouldNotInstall \<notin> set pre"
      by (simp add: announce_custom_def printed_print split: option.split)
    then obtain pre where pre: "printed ?w1 = printed w @ pre" "CouldNotInstall \<notin> set pre"
      by blast
    from False obtain href where known: "map_of (fetched_listing h) (argv ! 1) = Some href"
      and len: "\<not> length argv < 2" by auto
    have "main h argv w = (w', r)"
      using ok known len run by (simp add: main_eq)
    with out pre show ?thesis by auto
  qed
qed

subsection \<open>Runs that reach the installation\<close>

lemma main_known:
  assumes "status_code (http_get h listing_url) = 200"
    and "2 \<le> length argv"
    and "map_of (fetched_listing h) (argv ! 1) = Some href"
  shows "main h argv w =
     download_and_install h (fetched_listing h) (argv ! 1) (custom_directory_of h argv)
       (announce_custom (custom_directory_of h argv)
          (w\<lparr>requested := requested w @ [listing_url]\<rparr>))"
  using assms by (simp add: main_eq)

lemma download_and_decode_ok:
  assumes "map_of links_dict lang_code = Some href"
    and "status_code (http_get h (download_url href)) = 200"
    and "b64decode (response_text (http_get h (download_url href))) = Some lang_file_binary"
  shows "download_and_decode h links_dict lang_code w =
     (w\<lparr>requested := requested w @ [download_url href]\<rparr>, Inr lang_file_binary)"
  using assms by (simp add: download_and_decode_eq)

lemma b64decode_example: "b64decode ''QUJD'' = Some [65, 66, 67]"
  by code_simp

lemma fetched_listing_example:
  "fetched_listing example_host = [(''en-GB-10-1'', Some ''/d/en-GB-10-1.bdic'')]"
  by code_simp

lemma install_files_both:
  assumes "path_exists v (os_install_dir h)"
    and "path_exists v (flatpak_install_dir h)"
    and "can_open_wb v (dictionary_file_path (os_install_dir h) lang_code)"
    and "can_open_wb v (dictionary_file_path (flatpak_install_dir h) lang_code)"
  shows "install_files h lang_code lang_file_binary None v =
      (v\<lparr>files := (files v)
              (dictionary_file_path (os_install_dir h) lang_code := Some lang_file_binary,
               dictionary_file_path (flatpak_install_dir h) lang_code := Some lang_file_binary),
          path_exists := (path_exists v)
              (dictionary_file_path (os_install_dir h) lang_code := True,
               dictionary_file_path (flatpak_install_dir h) lang_code := True),
          printed := printed v
              @ [Saved (lang_code @ file_ext) (dictionary_file_path (os_install_dir h) lang_code),
                 Saved (lang_code @ file_ext)
                   (dictionary_file_path (flatpak_install_dir h) lang_code)]\<rparr>,
       Inr True)"
  using assms
  by (simp add: install_files_no_custom truthy_def install_conventional_def install_lang_file_eq)

lemma download_and_install_custom_frame:
  assumes "d \<noteq> []" and "path \<noteq> dictionary_file_path d lang_code"
  shows "files (fst (download_and_install h links_dict lang_code (Some d) v)) path = files v path"
  using assms
  by (simp add: download_and_install_def download_and_decode_eq install_files_custom
      install_lang_file_eq print_def split: option.split)

lemma download_and_install_custom_missing:
  assumes "d \<noteq> []" and "\<not> path_exists v d"
  shows "files (fst (download_and_install h links_dict lang_code (Some d) v)) = files v"
  using assms
  by (simp add: download_and_install_def download_and_decode_eq install_files_custom
      print_def split: option.split)

lemma os_path_expanduser_empty: "(os_path_expanduser h path = []) = (path = [])"
  by (auto simp add: os_path_expanduser_def startswith_def)

lemma main_files_cases:
  "files (fst (main h argv w)) = files w
   \<or> (status_code (http_get h listing_url) = 200 \<and> 2 \<le> length argv
       \<and> (\<exists>href. map_of (fetched_listing h) (argv ! 1) = Some href)
       \<and> main h argv w =
           download_and_install h (fetched_listing h) (argv ! 1) (custom_directory_of h argv)
             (announce_custom (custom_directory_of h argv)
                (w\<lparr>requested := requested w @ [listing_url]\<rparr>)))"
  by (auto simp add: main_eq print_available_def print_def)

lemma files_announce_custom: "files (announce_custom cu v) = files v"
  by (simp add: announce_custom_def print_def split: option.split)

lemma path_exists_announce_custom: "path_exists (announce_custom cu v) = path_exists v"
  by (simp add: announce_custom_def print_def split: option.split)

lemma report_not_truthy:
  "\<not> truthy cu \<Longrightarrow> report cu (custom_directory_exists cu v) oe fe b = report None False oe fe b"
  by (simp add: report_def truthy_def)

lemma install_conventional_printed_update:
  "install_conventional h lang_code lang_file_binary oe fe False (v\<lparr>printed := p\<rparr>) =
     (case install_conventional h lang_code lang_file_binary oe fe False v of
        (v', r) \<Rightarrow> (v'\<lparr>printed := p @ drop (length (printed v)) (printed v')\<rparr>, r))"
  by (simp add: install_conventional_def install_lang_file_eq)

lemma download_and_install_printed_update:
  assumes "\<not> truthy cu"
  shows "download_and_install h links_dict lang_code cu (v\<lparr>printed := p\<rparr>) =
     (case download_and_install h links_dict lang_code None v of
        (v', r) \<Rightarrow> (v'\<lparr>printed := p @ drop (length (printed v)) (printed v')\<rparr>, r))"
proof (cases "map_of links_dict lang_code")
  case None
  then show ?thesis
    by (simp add: download_and_install_def download_and_decode_eq)
next
  case (Some href)
  show ?thesis
  proof (cases "status_code (http_get h (download_url href)) = 200")
    case False
    with Some show ?thesis
      by (simp add: download_and_install_def download_and_decode_eq)
  next
    case ok: True
    show ?thesis
    proof (cases "b64decode (response_text (http_get h (download_url href)))")
      case None
      with Some ok show ?thesis
        by (simp add: download_and_install_def download_and_decode_eq)
    next
      case decoded: (Some lang_file_binary)
      let ?v1 = "v\<lparr>requested := requested v @ [download_url href]\<rparr>"
      let ?oe = "path_exists v (os_install_dir h)"
      let ?fe = "path_exists v (flatpak_install_dir h)"
      obtain v2 r2 where conv:
        "install_conventional h lang_code lang_file_binary ?oe ?fe False ?v1 = (v2, r2)"
        by (cases "install_conventional h lang_code lang_file_binary ?oe ?fe False ?v1")
      from install_conventional_printed [OF conv] obtain out
        where out: "printed v2 = printed v @ out" by auto
      have without: "download_and_install h links_dict lang_code None v =
          (case r2 of Inl err \<Rightarrow> (v2, Inl err)
           | Inr installed \<Rightarrow>
               (v2\<lparr>printed := printed v2 @ [report None False ?oe ?fe installed]\<rparr>,
                Inr (Some links_dict)))"
        using Some ok decoded conv
        by (simp add: download_and_install_def download_and_decode_eq
            install_files_no_custom os_path_exists_def truthy_def
            custom_directory_exists_def print_def split: sum.split)
      have moved: "v\<lparr>printed := p, requested := requested v @ [download_url href]\<rparr>
                   = ?v1\<lparr>printed := p\<rparr>"
        by simp
      have with_print: "download_and_install h links_dict lang_code cu (v\<lparr>printed := p\<rparr>) =
          (case r2 of Inl err \<Rightarrow> (v2\<lparr>printed := p @ out\<rparr>, Inl err)
           | Inr installed \<Rightarrow>
               (v2\<lparr>printed := p @ out @ [report None False ?oe ?fe installed]\<rparr>,
                Inr (Some links_dict)))"
        using Some ok decoded assms
        by (simp add: download_and_install_def download_and_decode_eq moved
            install_files_no_custom report_not_truthy os_path_exists_def
            install_conventional_printed_update conv out print_def split: sum.split)
      show ?thesis
        unfolding with_print without
        using out by (cases r2) simp_all
    qed
  qed
qed

subsection \<open>The decoder\<close>

lemma a2b_base64_loop_skips:
  "a2b_base64_loop (filter base64_significant s) quad_pos leftchar pads bin_data
     = a2b_base64_loop s quad_pos leftchar pads bin_data"
  by (induction s quad_pos leftchar pads bin_data rule: a2b_base64_loop.induct)
     (auto simp: base64_significant_def split: option.splits)

lemma a2b_base64_loop_unpadded:
  assumes "CHR ''='' \<notin> set s" and "quad_pos < 4"
  shows "(a2b_base64_loop s quad_pos leftchar pads bin_data = None)
       = ((quad_pos + length (filter (\<lambda>c. table_a2b_base64 c \<noteq> None) s)) mod 4 \<noteq> 0)"
  using assms
proof (induction s arbitrary: quad_pos leftchar pads bin_data)
  case Nil
  then show ?case by simp
next
  case (Cons c cs)
  let ?n = "length (filter (\<lambda>c. table_a2b_base64 c \<noteq> None) cs)"
  from Cons.prems have c: "c \<noteq> CHR ''=''" and cs: "CHR ''='' \<notin> set cs" by auto
  show ?case
  proof (cases "table_a2b_base64 c")
    case None
    with Cons.IH [OF cs Cons.prems(2)] c show ?thesis by simp
  next
    case (Some this_ch)
    have IH: "(a2b_base64_loop cs q l p b = None) = ((q + ?n) mod 4 \<noteq> 0)" if "q < 4"
      for q l p b
      using Cons.IH [OF cs that] .
    from Cons.prems consider "quad_pos = 0" | "quad_pos = 1" | "quad_pos = 2" | "quad_pos = 3"
      by arith
    then show ?thesis
    proof cases
      case 1
      with Some c IH [of 1] show ?thesis by simp
    next
      case 2
      with Some c IH [of 2] show ?thesis by simp
    next
      case 3
      with Some c IH [of 3] show ?thesis by simp
    next
      case 4
      with Some c IH [of 0] show ?thesis by simp
    qed
  qed
qed

lemma of_char_table_b2a_base64:
  "(of_char (table_b2a_base64 s) :: nat) =
     (if unat s < 26 then unat s + 65
      else if unat s < 52 then unat s + 71
      else if unat s < 62 then unat s - 4
      else if unat s = 62 then 43 else 47)"
  by (simp add: table_b2a_base64_def Let_def)

lemma table_roundtrip:
  assumes "unat s < 64"
  shows "table_a2b_base64 (table_b2a_base64 s) = Some s"
    and "table_b2a_base64 s \<noteq> CHR ''=''"
    and "\<not> 127 < (of_char (table_b2a_base64 s) :: nat)"
proof -
  have s: "of_nat (unat s) = s" by simp
  have s62: "s = 62" if "unat s = 62" using that s by (metis of_nat_numeral)
  have s63: "s = 63" if "unat s = 63" using that s by (metis of_nat_numeral)
  show "table_a2b_base64 (table_b2a_base64 s) = Some s"
    using assms s62 s63
    by (auto simp add: table_a2b_base64_def of_char_table_b2a_base64 Let_def)
  show "table_b2a_base64 s \<noteq> CHR ''=''"
  proof
    assume "table_b2a_base64 s = CHR ''=''"
    then have "(of_char (table_b2a_base64 s) :: nat) = 61" by simp
    then show False
      by (simp add: of_char_table_b2a_base64 split: if_splits)
  qed
  show "\<not> 127 < (of_char (table_b2a_base64 s) :: nat)"
    using assms by (auto simp add: of_char_table_b2a_base64)
qed

lemma and_numeral_take_bit:
  fixes x :: "8 word"
  shows "x AND 3 = take_bit 2 x" and "x AND 15 = take_bit 4 x" and "x AND 63 = take_bit 6 x"
proof -
  have "(3 :: 8 word) = mask 2" "(15 :: 8 word) = mask 4" "(63 :: 8 word) = mask 6"
    by (simp_all add: mask_eq_exp_minus_1)
  then show "x AND 3 = take_bit 2 x" and "x AND 15 = take_bit 4 x" and "x AND 63 = take_bit 6 x"
    by (simp_all add: take_bit_eq_mask)
qed

lemma sextet_less:
  fixes x :: "8 word"
  assumes "take_bit 6 x = x"
  shows "unat x < 64"
proof -
  have "unat (take_bit 6 x) < 2 ^ 6"
    using take_bit_nat_less_exp [of 6 "unat x"] by (simp add: unsigned_take_bit_eq)
  with assms show ?thesis by simp
qed

lemma sextet_bounds:
  fixes a b c :: "8 word"
  shows "unat (drop_bit 2 a) < 64"
    and "unat (push_bit 4 (a AND 3)) < 64"
    and "unat (push_bit 4 (a AND 3) OR drop_bit 4 b) < 64"
    and "unat (push_bit 2 (b AND 15)) < 64"
    and "unat (push_bit 2 (b AND 15) OR drop_bit 6 c) < 64"
    and "unat (c AND 63) < 64"
  by (rule sextet_less, rule bit_word_eqI,
      auto simp add: and_numeral_take_bit bit_simps dest: bit_imp_le_length)+

lemma shifted_index:
  "2 \<le> n \<Longrightarrow> Suc (Suc (n - 2)) = n"
  "4 \<le> n \<Longrightarrow> n - 4 + 4 = n"
  "6 \<le> n \<Longrightarrow> n - 6 + 6 = n"
  "2 \<le> n \<Longrightarrow> n - 2 + 2 = n"
  by simp_all

lemma quad_bytes:
  fixes a b c :: "8 word"
  shows "push_bit 2 (drop_bit 2 a) OR drop_bit 4 (push_bit 4 (a AND 3) OR drop_bit 4 b) = a"
    and "push_bit 2 (drop_bit 2 a) OR drop_bit 4 (push_bit 4 (a AND 3)) = a"
    and "push_bit 4 ((push_bit 4 (a AND 3) OR drop_bit 4 b) AND 15)
           OR drop_bit 2 (push_bit 2 (b AND 15) OR drop_bit 6 c) = b"
    and "push_bit 4 ((push_bit 4 (a AND 3) OR drop_bit 4 b) AND 15)
           OR drop_bit 2 (push_bit 2 (b AND 15)) = b"
    and "push_bit 6 ((push_bit 2 (b AND 15) OR drop_bit 6 c) AND 3) OR (c AND 63) = c"
proof -
  show "push_bit 2 (drop_bit 2 a) OR drop_bit 4 (push_bit 4 (a AND 3) OR drop_bit 4 b) = a"
  proof (rule bit_word_eqI)
    fix n assume "n < LENGTH(8)"
    then show "bit (push_bit 2 (drop_bit 2 a) OR drop_bit 4 (push_bit 4 (a AND 3) OR drop_bit 4 b)) n
        = bit a n"
      by (cases "2 \<le> n")
         (auto simp add: and_numeral_take_bit bit_simps shifted_index dest: bit_imp_le_length)
  qed
  show "push_bit 2 (drop_bit 2 a) OR drop_bit 4 (push_bit 4 (a AND 3)) = a"
  proof (rule bit_word_eqI)
    fix n assume "n < LENGTH(8)"
    then show "bit (push_bit 2 (drop_bit 2 a) OR drop_bit 4 (push_bit 4 (a AND 3))) n = bit a n"
      by (cases "2 \<le> n")
         (auto simp add: and_numeral_take_bit bit_simps shifted_index dest: bit_imp_le_length)
  qed
  show "push_bit 4 ((push_bit 4 (a AND 3) OR drop_bit 4 b) AND 15)
           OR drop_bit 2 (push_bit 2 (b AND 15) OR drop_bit 6 c) = b"
  proof (rule bit_word_eqI)
    fix n assume "n < LENGTH(8)"
    then show "bit (push_bit 4 ((push_bit 4 (a AND 3) OR drop_bit 4 b) AND 15)
           OR drop_bit 2 (push_bit 2 (b AND 15) OR drop_bit 6 c)) n = bit b n"
      by (cases "4 \<le> n")
         (auto simp add: and_numeral_take_bit bit_simps shifted_index dest: bit_imp_le_length)
  qed
  show "push_bit 4 ((push_bit 4 (a AND 3) OR drop_bit 4 b) AND 15)
           OR drop_bit 2 (push_bit 2 (b AND 15)) = b"
  proof (rule bit_word_eqI)
    fix n assume "n < LENGTH(8)"
    then show "bit (push_bit 4 ((push_bit 4 (a AND 3) OR drop_bit 4 b) AND 15)
           OR drop_bit 2 (push_bit 2 (b AND 15))) n = bit b n"
      by (cases "4 \<le> n")
         (auto simp add: and_numeral_take_bit bit_simps shifted_index dest: bit_imp_le_length)
  qed
  show "push_bit 6 ((push_bit 2 (b AND 15) OR drop_bit 6 c) AND 3) OR (c AND 63) = c"
  proof (rule bit_word_eqI)
    fix n assume "n < LENGTH(8)"
    then show "bit (push_bit 6 ((push_bit 2 (b AND 15) OR drop_bit 6 c) AND 3) OR (c AND 63)) n
        = bit c n"
      by (cases "6 \<le> n")
         (auto simp add: and_numeral_take_bit bit_simps shifted_index dest: bit_imp_le_length)
  qed
qed

lemma a2b_base64_loop_sextet:
  assumes "unat s < 64"
  shows "a2b_base64_loop (table_b2a_base64 s # cs) quad_pos leftchar pads bin_data =
     (if quad_pos = 0 then a2b_base64_loop cs 1 s 0 bin_data
      else if quad_pos = 1
      then a2b_base64_loop cs 2 (s AND 15) 0 (bin_data @ [push_bit 2 leftchar OR drop_bit 4 s])
      else if quad_pos = 2
      then a2b_base64_loop cs 3 (s AND 3) 0 (bin_data @ [push_bit 4 leftchar OR drop_bit 2 s])
      else a2b_base64_loop cs 0 0 0 (bin_data @ [push_bit 6 leftchar OR s]))"
  using table_roundtrip(1,2) [OF assms] by simp

lemma a2b_base64_loop_pad:
  "a2b_base64_loop (CHR ''='' # cs) quad_pos leftchar pads bin_data =
     (if 2 \<le> quad_pos
      then (if 4 \<le> quad_pos + (pads + 1) then Some bin_data
            else a2b_base64_loop cs quad_pos leftchar (pads + 1) bin_data)
      else a2b_base64_loop cs quad_pos leftchar pads bin_data)"
  by simp

lemma a2b_base64_loop_b64encode:
  "a2b_base64_loop (b64encode bs) 0 leftchar pads bin_data = Some (bin_data @ bs)"
proof (induction bs arbitrary: leftchar pads bin_data rule: b64encode.induct)
  case 1
  show ?case by simp
next
  case (2 a)
  define s1 s2 where "s1 = drop_bit 2 a" and "s2 = push_bit 4 (a AND 3)"
  have enc: "b64encode [a] = [table_b2a_base64 s1, table_b2a_base64 s2, CHR ''='', CHR ''='']"
    by (simp only: b64encode.simps s1_def s2_def)
  have bounds: "unat s1 < 64" "unat s2 < 64"
    unfolding s1_def s2_def by (rule sextet_bounds)+
  have bytes: "push_bit 2 s1 OR drop_bit 4 s2 = a"
    unfolding s1_def s2_def by (rule quad_bytes)
  show ?case
    unfolding enc
    by (simp del: a2b_base64_loop.simps(2) push_bit_and
        add: a2b_base64_loop_sextet a2b_base64_loop_pad bounds bytes)
next
  case (3 a b)
  define s1 s2 s3 where "s1 = drop_bit 2 a" and "s2 = push_bit 4 (a AND 3) OR drop_bit 4 b"
    and "s3 = push_bit 2 (b AND 15)"
  have enc: "b64encode [a, b] =
      [table_b2a_base64 s1, table_b2a_base64 s2, table_b2a_base64 s3, CHR ''='']"
    by (simp only: b64encode.simps s1_def s2_def s3_def)
  have bounds: "unat s1 < 64" "unat s2 < 64" "unat s3 < 64"
    unfolding s1_def s2_def s3_def by (rule sextet_bounds)+
  have bytes: "push_bit 2 s1 OR drop_bit 4 s2 = a" "push_bit 4 (s2 AND 15) OR drop_bit 2 s3 = b"
    unfolding s1_def s2_def s3_def by (rule quad_bytes)+
  show ?case
    unfolding enc
    by (simp del: a2b_base64_loop.simps(2) push_bit_and
        add: a2b_base64_loop_sextet a2b_base64_loop_pad bounds bytes)
next
  case (4 a b c bs)
  define s1 s2 s3 s4 where "s1 = drop_bit 2 a" and "s2 = push_bit 4 (a AND 3) OR drop_bit 4 b"
    and "s3 = push_bit 2 (b AND 15) OR drop_bit 6 c" and "s4 = c AND 63"
  have enc: "b64encode (a # b # c # bs) =
      [table_b2a_base64 s1, table_b2a_base64 s2, table_b2a_base64 s3, table_b2a_base64 s4]
        @ b64encode bs"
    by (simp only: b64encode.simps s1_def s2_def s3_def s4_def)
  have bounds: "unat s1 < 64" "unat s2 < 64" "unat s3 < 64" "unat s4 < 64"
    unfolding s1_def s2_def s3_def s4_def by (rule sextet_bounds)+
  have bytes: "push_bit 2 s1 OR drop_bit 4 s2 = a" "push_bit 4 (s2 AND 15) OR drop_bit 2 s3 = b"
    "push_bit 6 (s3 AND 3) OR s4 = c"
    unfolding s1_def s2_def s3_def s4_def by (rule quad_bytes)+
  show ?case
    unfolding enc
    by (simp del: a2b_base64_loop.simps(2) push_bit_and
        add: a2b_base64_loop_sextet bounds bytes "4.IH")
qed

lemma b64encode_ascii: "\<not> list_ex (\<lambda>c. 127 < (of_char c :: nat)) (b64encode bs)"
proof (induction bs rule: b64encode.induct)
  case 1
  show ?case by simp
next
  case (2 a)
  show ?case
    using table_roundtrip(3) [OF sextet_bounds(1), of a]
      table_roundtrip(3) [OF sextet_bounds(2), of a]
    by (simp del: push_bit_and)
next
  case (3 a b)
  show ?case
    using table_roundtrip(3) [OF sextet_bounds(1), of a]
      table_roundtrip(3) [OF sextet_bounds(3), of a b]
      table_roundtrip(3) [OF sextet_bounds(4), of b]
    by (simp del: push_bit_and)
next
  case (4 a b c bs)
  then show ?case
    using table_roundtrip(3) [OF sextet_bounds(1), of a]
      table_roundtrip(3) [OF sextet_bounds(3), of a b]
      table_roundtrip(3) [OF sextet_bounds(5), of b c]
      table_roundtrip(3) [OF sextet_bounds(6), of c]
    by (simp del: push_bit_and)
qed

lemma b64decode_b64encode: "b64decode (b64encode bs) = Some bs"
  using a2b_base64_loop_b64encode [of bs 0 0 "[]"]
  by (simp add: b64decode_def a2b_base64_def b64encode_ascii)

lemma b64decode_skips:
  "b64decode s =
     (if list_ex (\<lambda>c. 127 < (of_char c :: nat)) s then None
      else a2b_base64 (filter base64_significant s))"
  by (simp add: b64decode_def a2b_base64_def a2b_base64_loop_skips)

lemma b64decode_unpadded:
  assumes "CHR ''='' \<notin> set s"
  shows "(b64decode s = None)
       = (list_ex (\<lambda>c. 127 < (of_char c :: nat)) s
          \<or> length (filter (\<lambda>c. table_a2b_base64 c \<noteq> None) s) mod 4 \<noteq> 0)"
  using a2b_base64_loop_unpadded [OF assms, of 0 0 0 "[]"]
  by (simp add: b64decode_def a2b_base64_def)

lemma b64_examples:
  "b64encode [65, 66, 67] = ''QUJD'' \<and> b64decode ''QQ'' = None \<and> CHR ''='' \<notin> set ''QQ''"
  by code_simp

lemma example_paths:
  "dictionary_file_path (os_install_dir example_host) ''en-GB-10-1''
     = ''/home/u/.config/chromium/Dictionaries/en-GB-10-1.bdic''
   \<and> dictionary_file_path (flatpak_install_dir example_host) ''en-GB-10-1''
     = ''/home/u/.var/app/com.github.Eloston.UngoogledChromium/config/chromium/''
         @ ''Dictionaries/en-GB-10-1.bdic''
   \<and> os_path_exists
         (example_world [os_install_dir example_host, flatpak_install_dir example_host])
         (os_install_dir example_host)
   \<and> os_path_exists
         (example_world [os_install_dir example_host, flatpak_install_dir example_host])
         (flatpak_install_dir example_host)"
  by code_simp

text \<open>
  With a second argument that is not the empty string, no file other than the dictionary
  file of the custom directory is written; and if that directory does not exist no file
  is written, and a run for a known name that no exception ends prints the notice and
  "Custom installation directory does not exist.".
\<close>

lemma nonempty_custom_directory_frame:
  assumes given: "3 \<le> length argv" and nonempty: "argv ! 2 \<noteq> []"
  shows "(\<forall>path. path \<noteq> dictionary_file_path (os_path_expanduser h (argv ! 2)) (argv ! 1)
            \<longrightarrow> files (fst (main h argv w)) path = files w path)
     \<and> (\<not> os_path_exists w (os_path_expanduser h (argv ! 2)) \<longrightarrow>
          files (fst (main h argv w)) = files w
          \<and> (status_code (http_get h listing_url) = 200
             \<and> map_of (fetched_listing h) (argv ! 1) = Some href
             \<and> status_code (http_get h (download_url href)) = 200
             \<and> b64decode (response_text (http_get h (download_url href)))
                  = Some lang_file_binary
             \<longrightarrow> main h argv w =
                   (w\<lparr>requested := requested w @ [listing_url, download_url href],
                      printed := printed w
                        @ [UsingCustomDirectory (os_path_expanduser h (argv ! 2)),
                           CustomDirectoryMissing]\<rparr>,
                    Inr (Some (fetched_listing h)))))"
proof -
  let ?d = "os_path_expanduser h (argv ! 2)"
  let ?w1 = "w\<lparr>requested := requested w @ [listing_url]\<rparr>"
  have d: "?d \<noteq> []" using nonempty by (simp add: os_path_expanduser_empty)
  have cu: "custom_directory_of h argv = Some ?d"
    using given by (simp add: custom_directory_of_def)
  have frame: "files (fst (main h argv w)) path = files w path"
    if "path \<noteq> dictionary_file_path ?d (argv ! 1)" for path
    using main_files_cases [of h argv w]
  proof
    assume "files (fst (main h argv w)) = files w"
    then show ?thesis by simp
  next
    assume "status_code (http_get h listing_url) = 200 \<and> 2 \<le> length argv
       \<and> (\<exists>href. map_of (fetched_listing h) (argv ! 1) = Some href)
       \<and> main h argv w =
           download_and_install h (fetched_listing h) (argv ! 1) (custom_directory_of h argv)
             (announce_custom (custom_directory_of h argv) ?w1)"
    then have "main h argv w = download_and_install h (fetched_listing h) (argv ! 1) (Some ?d)
             (announce_custom (Some ?d) ?w1)"
      by (simp add: cu)
    then show ?thesis
      using download_and_install_custom_frame [OF d that] by (simp add: files_announce_custom)
  qed
  have missing: "files (fst (main h argv w)) = files w" if "\<not> os_path_exists w ?d"
    using main_files_cases [of h argv w]
  proof
    assume "files (fst (main h argv w)) = files w"
    then show ?thesis .
  next
    assume "status_code (http_get h listing_url) = 200 \<and> 2 \<le> length argv
       \<and> (\<exists>href. map_of (fetched_listing h) (argv ! 1) = Some href)
       \<and> main h argv w =
           download_and_install h (fetched_listing h) (argv ! 1) (custom_directory_of h argv)
             (announce_custom (custom_directory_of h argv) ?w1)"
    then have run: "main h argv w = download_and_install h (fetched_listing h) (argv ! 1) (Some ?d)
             (announce_custom (Some ?d) ?w1)"
      by (simp add: cu)
    have "\<not> path_exists (announce_custom (Some ?d) ?w1) ?d"
      using that by (simp add: path_exists_announce_custom os_path_exists_def)
    from download_and_install_custom_missing [OF d this] show ?thesis
      by (simp add: run files_announce_custom)
  qed
  have outcome: "main h argv w =
                   (w\<lparr>requested := requested w @ [listing_url, download_url href],
                      printed := printed w @ [UsingCustomDirectory ?d, CustomDirectoryMissing]\<rparr>,
                    Inr (Some (fetched_listing h)))"
    if "\<not> os_path_exists w ?d" "status_code (http_get h listing_url) = 200"
       "map_of (fetched_listing h) (argv ! 1) = Some href"
       "status_code (http_get h (download_url href)) = 200"
       "b64decode (response_text (http_get h (download_url href))) = Some lang_file_binary"
  proof -
    from given have "2 \<le> length argv" by simp
    from main_known [OF that(2) this that(3)]
    have "main h argv w = download_and_install h (fetched_listing h) (argv ! 1) (Some ?d)
             (announce_custom (Some ?d) ?w1)"
      by (simp add: cu)
    then show ?thesis
      using that d
      by (simp add: download_and_install_def download_and_decode_eq
          install_files_custom announce_custom_def print_def os_path_exists_def report_def
          truthy_def custom_directory_exists_def)
  qed
  from frame missing outcome show ?thesis by blast
qed

section \<open>Claims\<close>

text \<open>
  C1. The report of lines 165-178 tests the two conventional directories without asking
  whether a custom directory was used. In this run a custom directory is given, exists
  and is written (the "Saved" line), neither conventional directory exists, and the
  outcome printed is "Couldn't find chromium configuration directory", not the reminder
  to restart.
\<close>

theorem custom_install_reported_as_no_configuration_directory:
  "run_output example_host [''spellcheck-installer.py'', ''en-GB-10-1'', ''/tmp/dicts'']
     (example_world [''/tmp/dicts''])
   = [UsingCustomDirectory ''/tmp/dicts'',
      Saved ''en-GB-10-1.bdic'' ''/tmp/dicts/en-GB-10-1.bdic'',
      NoConfigurationDirectory]
   \<and> files (fst (main example_host [''spellcheck-installer.py'', ''en-GB-10-1'', ''/tmp/dicts'']
          (example_world [''/tmp/dicts'']))) ''/tmp/dicts/en-GB-10-1.bdic''
     = Some [65, 66, 67]
   \<and> snd (main example_host [''spellcheck-installer.py'', ''en-GB-10-1'', ''/tmp/dicts'']
          (example_world [''/tmp/dicts'']))
     = Inr (Some [(''en-GB-10-1'', Some ''/d/en-GB-10-1.bdic'')])"
  by code_simp

text \<open>
  C2. The key is \<open>link_text.replace(file_ext, "")\<close>, which removes every occurrence of
  \<open>.bdic\<close>, not only the one at the end. For the label \<open>en-US.bdic.bdic\<close>, which ends
  with the extension, the label without its trailing extension is \<open>en-US.bdic\<close>, and the
  key the listing gets is \<open>en-US\<close>.
\<close>

theorem interior_extension_is_removed_from_key:
  "endswith ''en-US.bdic.bdic'' file_ext
   \<and> take (length ''en-US.bdic.bdic'' - length file_ext) ''en-US.bdic.bdic'' = ''en-US.bdic''
   \<and> replace ''en-US.bdic.bdic'' file_ext [] = ''en-US''
   \<and> links_dict_of [(''en-US.bdic.bdic'', Some ''/d/en-US.bdic.bdic'')]
       = [(''en-US'', Some ''/d/en-US.bdic.bdic'')]
   \<and> snd (get_lang_file_links
            (example_host\<lparr>find_file_links :=
               (\<lambda>page. [(''en-US.bdic.bdic'', Some ''/d/en-US.bdic.bdic'')])\<rparr>)
            (example_world []))
       = Inr [(''en-US'', Some ''/d/en-US.bdic.bdic'')]"
  by code_simp

text \<open>
  C3, as the code has it. For a name that is a key of the listing and a response with
  status 200, the download followed by the decoding (lines 131-132) makes one request
  and returns what \<open>base64.b64decode\<close> gives for the body in its default, non-validating
  mode:
  \<^item> the base64 encoding of a payload gives back that payload;
  \<^item> characters that are neither padding nor in the base64 alphabet are skipped, not
    rejected;
  \<^item> the decoder raises for a character outside ASCII and for a group of four left
    incomplete; for a body without \<open>=\<close> that is exactly when the number of its alphabet
    characters is not a multiple of four;
  \<^item> where the decoder raises, the run ends with that error: nothing is written or
    printed, nothing catches it.
\<close>

theorem download_returns_lenient_decoding:
  assumes "map_of links_dict lang_code = Some href"
    and "status_code (http_get h (download_url href)) = 200"
    and "response_text (http_get h (download_url href)) = body"
  shows "download_and_decode h links_dict lang_code w =
           (w\<lparr>requested := requested w @ [download_url href]\<rparr>,
            case b64decode body of
              None \<Rightarrow> Inl DecodeError
            | Some lang_file_binary \<Rightarrow> Inr lang_file_binary)
     \<and> (body = b64encode payload \<longrightarrow>
            snd (download_and_decode h links_dict lang_code w) = Inr payload)
     \<and> b64decode body =
           (if list_ex (\<lambda>c. 127 < (of_char c :: nat)) body then None
            else a2b_base64 (filter base64_significant body))
     \<and> (CHR ''='' \<notin> set body \<longrightarrow>
            (b64decode body = None)
              = (list_ex (\<lambda>c. 127 < (of_char c :: nat)) body
                 \<or> length (filter (\<lambda>c. table_a2b_base64 c \<noteq> None) body) mod 4 \<noteq> 0))
     \<and> (b64decode body = None \<longrightarrow>
            download_and_install h links_dict lang_code cu w =
              (w\<lparr>requested := requested w @ [download_url href]\<rparr>, Inl DecodeError))"
proof (intro conjI impI)
  show result: "download_and_decode h links_dict lang_code w =
           (w\<lparr>requested := requested w @ [download_url href]\<rparr>,
            case b64decode body of
              None \<Rightarrow> Inl DecodeError
            | Some lang_file_binary \<Rightarrow> Inr lang_file_binary)"
    using assms by (simp add: download_and_decode_eq)
  show "snd (download_and_decode h links_dict lang_code w) = Inr payload"
    if "body = b64encode payload"
    using that by (simp add: result b64decode_b64encode)
  show "b64decode body =
           (if list_ex (\<lambda>c. 127 < (of_char c :: nat)) body then None
            else a2b_base64 (filter base64_significant body))"
    by (rule b64decode_skips)
  show "(b64decode body = None)
              = (list_ex (\<lambda>c. 127 < (of_char c :: nat)) body
                 \<or> length (filter (\<lambda>c. table_a2b_base64 c \<noteq> None) body) mod 4 \<noteq> 0)"
    if "CHR ''='' \<notin> set body"
    using that by (rule b64decode_unpadded)
  show "download_and_install h links_dict lang_code cu w =
              (w\<lparr>requested := requested w @ [download_url href]\<rparr>, Inl DecodeError)"
    if "b64decode body = None"
    using that assms by (simp add: download_and_install_def download_and_decode_eq)
qed

theorem download_returns_lenient_decoding_witness:
  "download_and_decode example_host (fetched_listing example_host) ''en-GB-10-1''
     (example_world [])
     = ((example_world [])\<lparr>requested := [download_url (Some ''/d/en-GB-10-1.bdic'')]\<rparr>,
        Inr [65, 66, 67])
   \<and> b64encode [65, 66, 67] = ''QUJD''
   \<and> b64decode ''QQ'' = None
   \<and> length (filter (\<lambda>c. table_a2b_base64 c \<noteq> None) ''QQ'') mod 4 \<noteq> 0
   \<and> download_and_install
        (example_host\<lparr>http_get := (\<lambda>url. \<lparr>status_code = 200, response_text = ''QQ''\<rparr>)\<rparr>)
        (fetched_listing example_host) ''en-GB-10-1'' None (example_world [])
     = ((example_world [])\<lparr>requested := [download_url (Some ''/d/en-GB-10-1.bdic'')]\<rparr>,
        Inl DecodeError)"
  using download_returns_lenient_decoding
    [of "fetched_listing example_host" "''en-GB-10-1''" "Some ''/d/en-GB-10-1.bdic''"
        example_host "''QUJD''" "example_world []" "[65, 66, 67]"]
    download_returns_lenient_decoding
    [of "fetched_listing example_host" "''en-GB-10-1''" "Some ''/d/en-GB-10-1.bdic''"
        "example_host\<lparr>http_get := (\<lambda>url. \<lparr>status_code = 200, response_text = ''QQ''\<rparr>)\<rparr>"
        "''QQ''" "example_world []" _ None]
    b64_examples
  by (simp add: fetched_listing_example b64decode_example)
     (simp add: example_host_def example_world_def)

text \<open>
  The run where C3 fails as it is written: every request is answered with status 200 and
  the body \<open>Not found\<close>, nine characters with a space among them, which is no base64.
  The decoder skips the space and decodes the eight letters into six bytes; nothing is
  raised, and the run writes those bytes as the dictionary and reports success.
\<close>

theorem not_base64_body_is_decoded_counterexample:
  "length ''Not found'' mod 4 = 1
   \<and> table_a2b_base64 (CHR '' '') = None
   \<and> status_code (http_get not_found_host
         (download_url (Some ''/d/en-GB-10-1.bdic''))) = 200
   \<and> response_text (http_get not_found_host
         (download_url (Some ''/d/en-GB-10-1.bdic''))) = ''Not found''
   \<and> snd (download_and_decode not_found_host (fetched_listing not_found_host) ''en-GB-10-1''
          (example_world [])) = Inr [54, 139, 95, 162, 233, 221]
   \<and> snd (main not_found_host [''spellcheck-installer.py'', ''en-GB-10-1'']
          (example_world [os_install_dir not_found_host]))
       = Inr (Some [(''en-GB-10-1'', Some ''/d/en-GB-10-1.bdic'')])
   \<and> files (fst (main not_found_host [''spellcheck-installer.py'', ''en-GB-10-1'']
          (example_world [os_install_dir not_found_host])))
        ''/home/u/.config/chromium/Dictionaries/en-GB-10-1.bdic''
       = Some [54, 139, 95, 162, 233, 221]
   \<and> run_output not_found_host [''spellcheck-installer.py'', ''en-GB-10-1'']
          (example_world [os_install_dir not_found_host])
       = [Saved ''en-GB-10-1.bdic'' ''/home/u/.config/chromium/Dictionaries/en-GB-10-1.bdic'',
          RestartChromium]"
  by code_simp

text \<open>
  C4. The claim fails on the run below: the second argument is \<open>""\<close>, which names no
  existing directory, and only the native directory exists. The script prints its notice
  that the detected directories will be ignored (lines 125-128), and then, because the
  empty string is false in the tests of lines 144-165, it writes the file into the native
  directory and reports success instead of "Custom installation directory does not
  exist.".
\<close>

theorem empty_custom_directory_is_not_exclusive:
  "3 \<le> length [''spellcheck-installer.py'', ''en-GB-10-1'', []]
   \<and> \<not> os_path_exists (example_world [os_install_dir example_host])
         (os_path_expanduser example_host
            ([''spellcheck-installer.py'', ''en-GB-10-1'', []] ! 2))
   \<and> files (example_world [os_install_dir example_host])
        ''/home/u/.config/chromium/Dictionaries/en-GB-10-1.bdic'' = None
   \<and> files (fst (main example_host [''spellcheck-installer.py'', ''en-GB-10-1'', []]
          (example_world [os_install_dir example_host])))
        ''/home/u/.config/chromium/Dictionaries/en-GB-10-1.bdic'' = Some [65, 66, 67]
   \<and> run_output example_host [''spellcheck-installer.py'', ''en-GB-10-1'', []]
          (example_world [os_install_dir example_host])
       = [UsingCustomDirectory [],
          Saved ''en-GB-10-1.bdic'' ''/home/u/.config/chromium/Dictionaries/en-GB-10-1.bdic'',
          RestartChromium]"
  by code_simp

text \<open>
  C5. Take a run with one argument, a name of the listing (so no custom directory), in
  which no exception ends the run early: both fetches are answered with status 200, the
  decoder accepts the body, and the file system lets both files be opened for writing.
  If both conventional directories exist, the run returns normally, the decoded payload
  is the content of the dictionary file in the native directory and in the sandboxed one,
  and the run prints one "Saved" line for each of the two paths and then the reminder to
  restart.
\<close>

theorem both_conventional_directories_are_installed:
  assumes listing: "status_code (http_get h listing_url) = 200"
    and argv: "argv = [script, lang_code]"
    and known: "map_of (fetched_listing h) lang_code = Some href"
    and fetched: "status_code (http_get h (download_url href)) = 200"
    and decoded: "b64decode (response_text (http_get h (download_url href)))
                    = Some lang_file_binary"
    and os_exists: "os_path_exists w (os_install_dir h)"
    and flatpak_exists: "os_path_exists w (flatpak_install_dir h)"
    and os_open: "can_open_wb w (dictionary_file_path (os_install_dir h) lang_code)"
    and flatpak_open: "can_open_wb w (dictionary_file_path (flatpak_install_dir h) lang_code)"
  shows "snd (main h argv w) = Inr (Some (fetched_listing h))
     \<and> files (fst (main h argv w)) (dictionary_file_path (os_install_dir h) lang_code)
         = Some lang_file_binary
     \<and> files (fst (main h argv w)) (dictionary_file_path (flatpak_install_dir h) lang_code)
         = Some lang_file_binary
     \<and> run_output h argv w =
         [Saved (lang_code @ file_ext) (dictionary_file_path (os_install_dir h) lang_code),
          Saved (lang_code @ file_ext) (dictionary_file_path (flatpak_install_dir h) lang_code),
          RestartChromium]"
proof -
  let ?w1 = "w\<lparr>requested := requested w @ [listing_url]\<rparr>"
  let ?w2 = "?w1\<lparr>requested := requested ?w1 @ [download_url href]\<rparr>"
  let ?po = "dictionary_file_path (os_install_dir h) lang_code"
  let ?pf = "dictionary_file_path (flatpak_install_dir h) lang_code"
  have no_custom: "custom_directory_of h [script, lang_code] = None"
    by (simp add: custom_directory_of_def)
  have start: "main h argv w = download_and_install h (fetched_listing h) lang_code None ?w1"
    using main_known [of h argv href w] listing known argv
    by (simp add: no_custom announce_custom_def)
  have dd: "download_and_decode h (fetched_listing h) lang_code ?w1 = (?w2, Inr lang_file_binary)"
    using download_and_decode_ok [OF known fetched decoded] by simp
  have "main h argv w =
      (w\<lparr>requested := requested w @ [listing_url, download_url href],
         files := (files w)(?po := Some lang_file_binary, ?pf := Some lang_file_binary),
         path_exists := (path_exists w)(?po := True, ?pf := True),
         printed := printed w @ [Saved (lang_code @ file_ext) ?po,
                                 Saved (lang_code @ file_ext) ?pf, RestartChromium]\<rparr>,
       Inr (Some (fetched_listing h)))"
    using os_exists flatpak_exists os_open flatpak_open
    by (simp add: start download_and_install_def dd install_files_both report_def truthy_def
        print_def os_path_exists_def custom_directory_exists_def)
  then show ?thesis
    by (simp add: run_output_def)
qed

theorem both_conventional_directories_are_installed_witness:
  "snd (main example_host [''spellcheck-installer.py'', ''en-GB-10-1'']
          (example_world [os_install_dir example_host, flatpak_install_dir example_host]))
     = Inr (Some [(''en-GB-10-1'', Some ''/d/en-GB-10-1.bdic'')])
   \<and> files (fst (main example_host [''spellcheck-installer.py'', ''en-GB-10-1'']
          (example_world [os_install_dir example_host, flatpak_install_dir example_host])))
        (dictionary_file_path (os_install_dir example_host) ''en-GB-10-1'') = Some [65, 66, 67]
   \<and> files (fst (main example_host [''spellcheck-installer.py'', ''en-GB-10-1'']
          (example_world [os_install_dir example_host, flatpak_install_dir example_host])))
        (dictionary_file_path (flatpak_install_dir example_host) ''en-GB-10-1'')
     = Some [65, 66, 67]
   \<and> run_output example_host [''spellcheck-installer.py'', ''en-GB-10-1'']
          (example_world [os_install_dir example_host, flatpak_install_dir example_host])
     = [Saved (''en-GB-10-1'' @ file_ext)
          (dictionary_file_path (os_install_dir example_host) ''en-GB-10-1''),
        Saved (''en-GB-10-1'' @ file_ext)
          (dictionary_file_path (flatpak_install_dir example_host) ''en-GB-10-1''),
        RestartChromium]"
  using both_conventional_directories_are_installed
    [of example_host "[''spellcheck-installer.py'', ''en-GB-10-1'']" "''spellcheck-installer.py''"
        "''en-GB-10-1''" "Some ''/d/en-GB-10-1.bdic''" "[65, 66, 67]"
        "example_world [os_install_dir example_host, flatpak_install_dir example_host]"]
  by (simp add: fetched_listing_example os_path_exists_def)
     (simp add: example_host_def example_world_def b64decode_example)

text \<open>
  C6. In a run where the listing page was fetched (status 200) and the name given as first
  argument is not a key of the listing, the only request made is the one for the listing
  page (no download of a payload), no file is written, and the run prints the error
  line and the three lines of \<open>print_available\<close> (with the names of the listing) and
  returns normally, with \<open>None\<close>: the whole final world and result are given.
\<close>

theorem unknown_name_reports_without_download:
  assumes "status_code (http_get h listing_url) = 200"
    and "2 \<le> length argv"
    and "argv ! 1 \<notin> fst ` set (fetched_listing h)"
  shows "main h argv w =
     (w\<lparr>requested := requested w @ [listing_url],
        printed := printed w @ [UnavailableCode, AvailableHeader,
                     AvailableNames (map fst (fetched_listing h)), ExampleUsage]\<rparr>,
      Inr None)"
proof -
  have "map_of (fetched_listing h) (argv ! 1) = None"
    using assms(3) by (simp add: map_of_eq_None_iff)
  with assms(1,2) show ?thesis
    by (simp add: main_eq print_available_def print_def)
qed

theorem unknown_name_reports_without_download_witness:
  "snd (main example_host [''spellcheck-installer.py'', ''klingon''] (example_world [])) = Inr None
   \<and> requested (fst (main example_host [''spellcheck-installer.py'', ''klingon'']
        (example_world []))) = [listing_url]
   \<and> files (fst (main example_host [''spellcheck-installer.py'', ''klingon'']
        (example_world []))) = (\<lambda>path. None)
   \<and> printed (fst (main example_host [''spellcheck-installer.py'', ''klingon'']
        (example_world []))) =
       [UnavailableCode, AvailableHeader, AvailableNames [''en-GB-10-1''], ExampleUsage]"
  using unknown_name_reports_without_download
    [of example_host "[''spellcheck-installer.py'', ''klingon'']" "example_world []"]
  by (simp add: fetched_listing_example) (simp add: example_host_def example_world_def)

text \<open>
  C7, as the code has it. The script's test for a failed fetch is
  \<open>status_code != 200\<close>, in both fetches. Each fetch makes exactly one request (no
  retry) and raises \<open>FetchError\<close> exactly when the status of the response is not 200;
  with status 200 it returns (the listing, or the body). The download is taken for a name that is a key of the dictionary, as \<open>main\<close>
  calls it. A failed listing fetch ends \<open>main\<close> with that error, and a failed download ends
  the rest of the run with it: nothing is written or printed after it. The other success
  statuses of HTTP (201, 204 and so on) are not 200, so the fetches raise on them too.
\<close>

theorem fetch_error_iff_status_not_200:
  assumes "map_of links_dict lang_code = Some href"
  shows "get_lang_file_links h w =
           (w\<lparr>requested := requested w @ [listing_url]\<rparr>,
            if status_code (http_get h listing_url) = 200 then Inr (fetched_listing h)
            else Inl (FetchError listing_url))
     \<and> download_lang_file_binary h links_dict lang_code w =
           (w\<lparr>requested := requested w @ [download_url href]\<rparr>,
            if status_code (http_get h (download_url href)) = 200
            then Inr (response_text (http_get h (download_url href)))
            else Inl (FetchError (download_url href)))
     \<and> ((\<exists>e. snd (get_lang_file_links h w) = Inl e)
            = (status_code (http_get h listing_url) \<noteq> 200))
     \<and> ((\<exists>e. snd (download_lang_file_binary h links_dict lang_code w) = Inl e)
            = (status_code (http_get h (download_url href)) \<noteq> 200))
     \<and> (status_code (http_get h listing_url) \<noteq> 200 \<longrightarrow>
            main h argv w =
              (w\<lparr>requested := requested w @ [listing_url]\<rparr>, Inl (FetchError listing_url)))
     \<and> (status_code (http_get h (download_url href)) \<noteq> 200 \<longrightarrow>
            download_and_install h links_dict lang_code cu w =
              (w\<lparr>requested := requested w @ [download_url href]\<rparr>,
               Inl (FetchError (download_url href))))"
proof (intro conjI impI)
  show "get_lang_file_links h w =
           (w\<lparr>requested := requested w @ [listing_url]\<rparr>,
            if status_code (http_get h listing_url) = 200 then Inr (fetched_listing h)
            else Inl (FetchError listing_url))"
    by (rule get_lang_file_links_eq)
  show dl: "download_lang_file_binary h links_dict lang_code w =
           (w\<lparr>requested := requested w @ [download_url href]\<rparr>,
            if status_code (http_get h (download_url href)) = 200
            then Inr (response_text (http_get h (download_url href)))
            else Inl (FetchError (download_url href)))"
    using assms by (simp add: download_lang_file_binary_eq)
  show "(\<exists>e. snd (get_lang_file_links h w) = Inl e)
            = (status_code (http_get h listing_url) \<noteq> 200)"
    by (simp add: get_lang_file_links_eq)
  show "(\<exists>e. snd (download_lang_file_binary h links_dict lang_code w) = Inl e)
            = (status_code (http_get h (download_url href)) \<noteq> 200)"
    by (simp add: dl)
  show "main h argv w =
          (w\<lparr>requested := requested w @ [listing_url]\<rparr>, Inl (FetchError listing_url))"
    if "status_code (http_get h listing_url) \<noteq> 200"
    using that by (simp add: main_eq)
  show "download_and_install h links_dict lang_code cu w =
              (w\<lparr>requested := requested w @ [download_url href]\<rparr>,
               Inl (FetchError (download_url href)))"
    if "status_code (http_get h (download_url href)) \<noteq> 200"
    using that assms by (simp add: download_and_install_def download_and_decode_eq)
qed

theorem fetch_error_iff_status_not_200_witness:
  "snd (get_lang_file_links example_host (example_world [])) = Inr (fetched_listing example_host)
   \<and> snd (download_lang_file_binary example_host (fetched_listing example_host) ''en-GB-10-1''
        (example_world [])) = Inr ''QUJD''
   \<and> snd (main failing_host [''spellcheck-installer.py'', ''en-GB-10-1''] (example_world []))
       = Inl (FetchError listing_url)
   \<and> download_and_install failing_host (fetched_listing example_host) ''en-GB-10-1'' None
        (example_world [])
       = ((example_world [])\<lparr>requested := [download_url (Some ''/d/en-GB-10-1.bdic'')]\<rparr>,
          Inl (FetchError (download_url (Some ''/d/en-GB-10-1.bdic''))))"
  using fetch_error_iff_status_not_200
    [of "fetched_listing example_host" "''en-GB-10-1''" "Some ''/d/en-GB-10-1.bdic''"
        example_host "example_world []"]
    fetch_error_iff_status_not_200
    [of "fetched_listing example_host" "''en-GB-10-1''" "Some ''/d/en-GB-10-1.bdic''"
        failing_host "example_world []" "[''spellcheck-installer.py'', ''en-GB-10-1'']" None]
  by (simp add: fetched_listing_example)
     (simp add: example_host_def failing_host_def example_world_def)

text \<open>
  The run where C7 fails as it is written: every request is answered with status 204, a
  success status, and both fetches raise.
\<close>

theorem success_status_204_raises_counterexample:
  "http_success 204
   \<and> status_code (http_get no_content_host listing_url) = 204
   \<and> snd (get_lang_file_links no_content_host (example_world []))
       = Inl (FetchError listing_url)
   \<and> status_code (http_get no_content_host (download_url (Some ''/d/en-GB-10-1.bdic''))) = 204
   \<and> snd (download_lang_file_binary no_content_host
            [(''en-GB-10-1'', Some ''/d/en-GB-10-1.bdic'')] ''en-GB-10-1'' (example_world []))
       = Inl (FetchError (download_url (Some ''/d/en-GB-10-1.bdic'')))"
  by code_simp

text \<open>
  C8. Where the file system lets the file be opened for writing, \<open>install_lang_file\<close>
  writes the payload to \<open>os.path.join(directory, name + ".bdic")\<close>, whatever was there
  before, and returns \<open>True\<close>; installing the same name into the same directory a second
  time returns \<open>True\<close> again, and afterwards the files are those of the start with that
  one path holding the second payload: the second installation adds no file. For a
  directory that is not the empty string and a name that does not begin with a slash the
  path is the directory, one slash unless the directory ends with one, the name and
  \<open>.bdic\<close>.
\<close>

theorem install_twice_keeps_one_file_with_latest_content:
  assumes "can_open_wb w (dictionary_file_path directory_path lang_code)"
  shows "snd (install_lang_file lang_code payload1 directory_path w) = Inr True
     \<and> snd (install_lang_file lang_code payload2 directory_path
              (fst (install_lang_file lang_code payload1 directory_path w))) = Inr True
     \<and> files (fst (install_lang_file lang_code payload1 directory_path w))
         = (files w)(dictionary_file_path directory_path lang_code := Some payload1)
     \<and> files (fst (install_lang_file lang_code payload2 directory_path
              (fst (install_lang_file lang_code payload1 directory_path w))))
         = (files w)(dictionary_file_path directory_path lang_code := Some payload2)
     \<and> dom (files (fst (install_lang_file lang_code payload2 directory_path
              (fst (install_lang_file lang_code payload1 directory_path w)))))
         = dom (files (fst (install_lang_file lang_code payload1 directory_path w)))
     \<and> (directory_path \<noteq> [] \<and> \<not> startswith lang_code ''/'' \<longrightarrow>
           dictionary_file_path directory_path lang_code
             = directory_path @ (if endswith directory_path ''/'' then [] else ''/'')
                 @ lang_code @ ''.bdic'')"
proof -
  have path: "dictionary_file_path directory_path lang_code
             = directory_path @ (if endswith directory_path ''/'' then [] else ''/'')
                 @ lang_code @ ''.bdic''"
    if "directory_path \<noteq> []" "\<not> startswith lang_code ''/''"
  proof -
    from that(2) have "\<not> startswith (lang_code @ file_ext) ''/''"
      by (cases lang_code) (simp_all add: startswith_def file_ext_def)
    with that(1) show ?thesis
      by (simp add: dictionary_file_path_def os_path_join_def file_ext_def)
  qed
  from assms path show ?thesis
    by (simp add: install_lang_file_eq)
qed

theorem install_twice_keeps_one_file_with_latest_content_witness:
  "snd (install_lang_file ''en-GB-10-1'' [1, 2] ''/tmp/dicts''
          (fst (install_lang_file ''en-GB-10-1'' [65, 66, 67] ''/tmp/dicts''
                 (example_world [''/tmp/dicts''])))) = Inr True
   \<and> files (fst (install_lang_file ''en-GB-10-1'' [1, 2] ''/tmp/dicts''
          (fst (install_lang_file ''en-GB-10-1'' [65, 66, 67] ''/tmp/dicts''
                 (example_world [''/tmp/dicts''])))))
       = (\<lambda>path. None)(''/tmp/dicts/en-GB-10-1.bdic'' := Some [1, 2])
   \<and> dictionary_file_path ''/tmp/dicts'' ''en-GB-10-1'' = ''/tmp/dicts/en-GB-10-1.bdic''"
  using install_twice_keeps_one_file_with_latest_content
    [of "example_world [''/tmp/dicts'']" "''/tmp/dicts''" "''en-GB-10-1''" "[65, 66, 67]" "[1, 2]"]
  by (simp add: example_world_def startswith_def endswith_def suffix_def)

text \<open>
  C9. Whenever \<open>install_lang_file\<close> returns rather than raises, it returns \<open>True\<close>; and
  no run prints the line "Chromium configuration directory was found but the language
  file could not be installed" (\<open>CouldNotInstall\<close>): whatever the host, the arguments and
  the world, so in particular in every run where a selected install directory exists,
  that branch of the report is not reached.
\<close>

theorem install_returns_true_never_could_not_install:
  "(install_lang_file lang_code lang_file_binary directory_path w0 = (w', Inr b) \<longrightarrow> b)
   \<and> CouldNotInstall \<notin> set (run_output h argv w)"
proof
  show "install_lang_file lang_code lang_file_binary directory_path w0 = (w', Inr b) \<longrightarrow> b"
    by (auto dest: install_lang_file_Inr)
next
  from main_printed [of h argv w] obtain out
    where "printed (fst (main h argv w)) = printed w @ out" "CouldNotInstall \<notin> set out"
    by blast
  then show "CouldNotInstall \<notin> set (run_output h argv w)"
    by (simp add: run_output_def)
qed

theorem install_returns_true_never_could_not_install_witness:
  "snd (install_lang_file ''en-GB-10-1'' [65, 66, 67] ''/tmp/dicts''
          (example_world [''/tmp/dicts''])) = Inr True
   \<and> CouldNotInstall \<notin> set (run_output example_host
           [''spellcheck-installer.py'', ''en-GB-10-1'']
           (example_world [os_install_dir example_host]))"
  using install_returns_true_never_could_not_install
    [of "''en-GB-10-1''" "[65, 66, 67]" "''/tmp/dicts''" "example_world [''/tmp/dicts'']"
        "fst (install_lang_file ''en-GB-10-1'' [65, 66, 67] ''/tmp/dicts''
               (example_world [''/tmp/dicts'']))"
        True example_host "[''spellcheck-installer.py'', ''en-GB-10-1'']"
        "example_world [os_install_dir example_host]"]
  by (simp add: install_lang_file_eq example_world_def)

text \<open>
  C10. A run whose second argument is the empty string does what the run without that
  argument does: the custom directory is \<open>""\<close>, which is false, so lines 149-162 take
  the branch of the conventional directories. The result of the run, the files, the
  paths that exist and the requests made are those of the run on the first two
  arguments alone, and so is the output but for the notice "Using custom configuration
  directory: " that line 125 prints first when the name is known. In a run that no
  exception ends (both fetches answered with status 200, the body decoded, and the file
  of each conventional directory that exists can be opened for writing) the payload is
  written into the native directory if it exists and into the sandboxed directory if it
  exists, no other file changes, one "Saved" line is printed for each, and the report is
  the reminder to restart, or "Couldn't find chromium configuration directory" when
  neither exists.
\<close>

theorem empty_custom_directory_is_no_custom_directory:
  assumes given: "3 \<le> length argv" and empty: "argv ! 2 = []"
  shows "custom_directory_of h argv = Some []
     \<and> install_files h lang_code lang_file_binary (custom_directory_of h argv) v
         = install_conventional h lang_code lang_file_binary
             (os_path_exists v (os_install_dir h)) (os_path_exists v (flatpak_install_dir h))
             False v
     \<and> install_files h lang_code lang_file_binary (custom_directory_of h argv) v
         = install_files h lang_code lang_file_binary None v
     \<and> snd (main h argv w) = snd (main h (take 2 argv) w)
     \<and> files (fst (main h argv w)) = files (fst (main h (take 2 argv) w))
     \<and> path_exists (fst (main h argv w)) = path_exists (fst (main h (take 2 argv) w))
     \<and> requested (fst (main h argv w)) = requested (fst (main h (take 2 argv) w))
     \<and> run_output h argv w =
         (if status_code (http_get h listing_url) = 200
             \<and> map_of (fetched_listing h) (argv ! 1) \<noteq> None
          then [UsingCustomDirectory []] else [])
         @ run_output h (take 2 argv) w
     \<and> (status_code (http_get h listing_url) = 200
        \<and> map_of (fetched_listing h) (argv ! 1) = Some href
        \<and> status_code (http_get h (download_url href)) = 200
        \<and> b64decode (response_text (http_get h (download_url href))) = Some payload
        \<and> (os_path_exists w (os_install_dir h) \<longrightarrow>
               can_open_wb w (dictionary_file_path (os_install_dir h) (argv ! 1)))
        \<and> (os_path_exists w (flatpak_install_dir h) \<longrightarrow>
               can_open_wb w (dictionary_file_path (flatpak_install_dir h) (argv ! 1)))
        \<longrightarrow>
          snd (main h argv w) = Inr (Some (fetched_listing h))
          \<and> files (fst (main h argv w)) =
               (\<lambda>path.
                  if os_path_exists w (flatpak_install_dir h)
                     \<and> path = dictionary_file_path (flatpak_install_dir h) (argv ! 1)
                  then Some payload
                  else if os_path_exists w (os_install_dir h)
                     \<and> path = dictionary_file_path (os_install_dir h) (argv ! 1)
                  then Some payload
                  else files w path)
          \<and> run_output h argv w =
               UsingCustomDirectory [] #
               (if os_path_exists w (os_install_dir h)
                then [Saved (argv ! 1 @ file_ext)
                        (dictionary_file_path (os_install_dir h) (argv ! 1))]
                else [])
               @ (if os_path_exists w (flatpak_install_dir h)
                  then [Saved (argv ! 1 @ file_ext)
                          (dictionary_file_path (flatpak_install_dir h) (argv ! 1))]
                  else [])
               @ [if \<not> os_path_exists w (flatpak_install_dir h)
                     \<and> \<not> os_path_exists w (os_install_dir h)
                  then NoConfigurationDirectory else RestartChromium])"
proof -
  let ?w1 = "w\<lparr>requested := requested w @ [listing_url]\<rparr>"
  let ?short = "take 2 argv"
  have cu: "custom_directory_of h argv = Some []"
    using given empty by (simp add: custom_directory_of_def os_path_expanduser_empty)
  have falsy: "\<not> truthy (Some [])" "\<not> truthy None"
    by (simp_all add: truthy_def)
  have inst: "install_files h lang_code lang_file_binary (Some []) v
         = install_conventional h lang_code lang_file_binary
             (os_path_exists v (os_install_dir h)) (os_path_exists v (flatpak_install_dir h))
             False v"
       "install_files h lang_code lang_file_binary (Some []) v
         = install_files h lang_code lang_file_binary None v"
    by (simp_all add: install_files_no_custom falsy os_path_exists_def)
  have short: "length ?short = 2" "?short ! 1 = argv ! 1"
              "custom_directory_of h ?short = None"
    using given by (simp_all add: custom_directory_of_def)
  have run: "snd (main h argv w) = snd (main h ?short w)
     \<and> files (fst (main h argv w)) = files (fst (main h ?short w))
     \<and> path_exists (fst (main h argv w)) = path_exists (fst (main h ?short w))
     \<and> requested (fst (main h argv w)) = requested (fst (main h ?short w))
     \<and> run_output h argv w =
         (if status_code (http_get h listing_url) = 200
             \<and> map_of (fetched_listing h) (argv ! 1) \<noteq> None
          then [UsingCustomDirectory []] else [])
         @ run_output h ?short w"
  proof (cases "status_code (http_get h listing_url) = 200
                \<and> map_of (fetched_listing h) (argv ! 1) \<noteq> None")
    case False
    then have "main h argv w = main h ?short w"
      using given short by (auto simp add: main_eq)
    with False show ?thesis by (simp add: run_output_def)
  next
    case True
    then obtain href where ok: "status_code (http_get h listing_url) = 200"
      and known: "map_of (fetched_listing h) (argv ! 1) = Some href" by auto
    obtain v' r where plain:
      "download_and_install h (fetched_listing h) (argv ! 1) None ?w1 = (v', r)"
      by (cases "download_and_install h (fetched_listing h) (argv ! 1) None ?w1")
    have two: "main h ?short w = (v', r)"
      using main_known [of h ?short href w] ok known short plain
      by (simp add: announce_custom_def)
    have "main h argv w =
        download_and_install h (fetched_listing h) (argv ! 1) (Some [])
          (?w1\<lparr>printed := printed w @ [UsingCustomDirectory []]\<rparr>)"
      using main_known [of h argv href w] ok known given
      by (simp add: cu announce_custom_def print_def)
    then have three: "main h argv w =
        (v'\<lparr>printed := (printed w @ [UsingCustomDirectory []])
                          @ drop (length (printed w)) (printed v')\<rparr>, r)"
      using plain by (simp add: download_and_install_printed_update [OF falsy(1)])
    from True show ?thesis
      by (simp add: two three run_output_def)
  qed
  have written: "snd (main h argv w) = Inr (Some (fetched_listing h))
          \<and> files (fst (main h argv w)) =
               (\<lambda>path.
                  if os_path_exists w (flatpak_install_dir h)
                     \<and> path = dictionary_file_path (flatpak_install_dir h) (argv ! 1)
                  then Some payload
                  else if os_path_exists w (os_install_dir h)
                     \<and> path = dictionary_file_path (os_install_dir h) (argv ! 1)
                  then Some payload
                  else files w path)
          \<and> run_output h argv w =
               UsingCustomDirectory [] #
               (if os_path_exists w (os_install_dir h)
                then [Saved (argv ! 1 @ file_ext)
                        (dictionary_file_path (os_install_dir h) (argv ! 1))]
                else [])
               @ (if os_path_exists w (flatpak_install_dir h)
                  then [Saved (argv ! 1 @ file_ext)
                          (dictionary_file_path (flatpak_install_dir h) (argv ! 1))]
                  else [])
               @ [if \<not> os_path_exists w (flatpak_install_dir h)
                     \<and> \<not> os_path_exists w (os_install_dir h)
                  then NoConfigurationDirectory else RestartChromium]"
    if ok: "status_code (http_get h listing_url) = 200"
      and known: "map_of (fetched_listing h) (argv ! 1) = Some href"
      and fetched: "status_code (http_get h (download_url href)) = 200"
      and decoded: "b64decode (response_text (http_get h (download_url href))) = Some payload"
      and os_open: "os_path_exists w (os_install_dir h) \<longrightarrow>
               can_open_wb w (dictionary_file_path (os_install_dir h) (argv ! 1))"
      and flatpak_open: "os_path_exists w (flatpak_install_dir h) \<longrightarrow>
               can_open_wb w (dictionary_file_path (flatpak_install_dir h) (argv ! 1))"
  proof -
    have start: "main h argv w =
        download_and_install h (fetched_listing h) (argv ! 1) (Some [])
          (?w1\<lparr>printed := printed w @ [UsingCustomDirectory []]\<rparr>)"
      using main_known [of h argv href w] ok known given
      by (simp add: cu announce_custom_def print_def)
    show ?thesis
      unfolding start run_output_def
      using known fetched decoded os_open flatpak_open
      by (cases "os_path_exists w (os_install_dir h)";
          cases "os_path_exists w (flatpak_install_dir h)")
         (simp_all add: download_and_install_def download_and_decode_eq
            install_files_no_custom falsy install_conventional_def install_lang_file_eq
            report_def truthy_def custom_directory_exists_def print_def os_path_exists_def
            fun_eq_iff)
  qed
  have equal: "custom_directory_of h argv = Some []
     \<and> install_files h lang_code lang_file_binary (custom_directory_of h argv) v
         = install_conventional h lang_code lang_file_binary
             (os_path_exists v (os_install_dir h)) (os_path_exists v (flatpak_install_dir h))
             False v
     \<and> install_files h lang_code lang_file_binary (custom_directory_of h argv) v
         = install_files h lang_code lang_file_binary None v
     \<and> snd (main h argv w) = snd (main h (take 2 argv) w)
     \<and> files (fst (main h argv w)) = files (fst (main h (take 2 argv) w))
     \<and> path_exists (fst (main h argv w)) = path_exists (fst (main h (take 2 argv) w))
     \<and> requested (fst (main h argv w)) = requested (fst (main h (take 2 argv) w))
     \<and> run_output h argv w =
         (if status_code (http_get h listing_url) = 200
             \<and> map_of (fetched_listing h) (argv ! 1) \<noteq> None
          then [UsingCustomDirectory []] else [])
         @ run_output h (take 2 argv) w"
    using cu inst run by simp
  have explicit: "(status_code (http_get h listing_url) = 200
        \<and> map_of (fetched_listing h) (argv ! 1) = Some href
        \<and> status_code (http_get h (download_url href)) = 200
        \<and> b64decode (response_text (http_get h (download_url href))) = Some payload
        \<and> (os_path_exists w (os_install_dir h) \<longrightarrow>
               can_open_wb w (dictionary_file_path (os_install_dir h) (argv ! 1)))
        \<and> (os_path_exists w (flatpak_install_dir h) \<longrightarrow>
               can_open_wb w (dictionary_file_path (flatpak_install_dir h) (argv ! 1)))
        \<longrightarrow>
          snd (main h argv w) = Inr (Some (fetched_listing h))
          \<and> files (fst (main h argv w)) =
               (\<lambda>path.
                  if os_path_exists w (flatpak_install_dir h)
                     \<and> path = dictionary_file_path (flatpak_install_dir h) (argv ! 1)
                  then Some payload
                  else if os_path_exists w (os_install_dir h)
                     \<and> path = dictionary_file_path (os_install_dir h) (argv ! 1)
                  then Some payload
                  else files w path)
          \<and> run_output h argv w =
               UsingCustomDirectory [] #
               (if os_path_exists w (os_install_dir h)
                then [Saved (argv ! 1 @ file_ext)
                        (dictionary_file_path (os_install_dir h) (argv ! 1))]
                else [])
               @ (if os_path_exists w (flatpak_install_dir h)
                  then [Saved (argv ! 1 @ file_ext)
                          (dictionary_file_path (flatpak_install_dir h) (argv ! 1))]
                  else [])
               @ [if \<not> os_path_exists w (flatpak_install_dir h)
                     \<and> \<not> os_path_exists w (os_install_dir h)
                  then NoConfigurationDirectory else RestartChromium])"
    by (intro impI, elim conjE, rule written)
  from equal explicit show ?thesis
    by (elim conjE, intro conjI)
qed

theorem empty_custom_directory_is_no_custom_directory_witness:
  "custom_directory_of example_host [''spellcheck-installer.py'', ''en-GB-10-1'', []] = Some []
   \<and> snd (main example_host [''spellcheck-installer.py'', ''en-GB-10-1'', []]
          (example_world [os_install_dir example_host, flatpak_install_dir example_host]))
     = Inr (Some [(''en-GB-10-1'', Some ''/d/en-GB-10-1.bdic'')])
   \<and> files (fst (main example_host [''spellcheck-installer.py'', ''en-GB-10-1'', []]
          (example_world [os_install_dir example_host, flatpak_install_dir example_host])))
        ''/home/u/.config/chromium/Dictionaries/en-GB-10-1.bdic'' = Some [65, 66, 67]
   \<and> files (fst (main example_host [''spellcheck-installer.py'', ''en-GB-10-1'', []]
          (example_world [os_install_dir example_host, flatpak_install_dir example_host])))
        (''/home/u/.var/app/com.github.Eloston.UngoogledChromium/config/chromium/''
           @ ''Dictionaries/en-GB-10-1.bdic'') = Some [65, 66, 67]
   \<and> files (fst (main example_host [''spellcheck-installer.py'', ''en-GB-10-1'', []]
          (example_world [os_install_dir example_host, flatpak_install_dir example_host])))
        ''en-GB-10-1.bdic'' = None
   \<and> files (fst (main example_host [''spellcheck-installer.py'', ''en-GB-10-1'', []]
          (example_world [os_install_dir example_host, flatpak_install_dir example_host])))
     = files (fst (main example_host [''spellcheck-installer.py'', ''en-GB-10-1'']
          (example_world [os_install_dir example_host, flatpak_install_dir example_host])))
   \<and> run_output example_host [''spellcheck-installer.py'', ''en-GB-10-1'', []]
          (example_world [os_install_dir example_host, flatpak_install_dir example_host])
     = UsingCustomDirectory [] #
       run_output example_host [''spellcheck-installer.py'', ''en-GB-10-1'']
          (example_world [os_install_dir example_host, flatpak_install_dir example_host])
   \<and> run_output example_host [''spellcheck-installer.py'', ''en-GB-10-1'', []]
          (example_world [os_install_dir example_host, flatpak_install_dir example_host])
     = [UsingCustomDirectory [],
        Saved ''en-GB-10-1.bdic'' ''/home/u/.config/chromium/Dictionaries/en-GB-10-1.bdic'',
        Saved ''en-GB-10-1.bdic''
          (''/home/u/.var/app/com.github.Eloston.UngoogledChromium/config/chromium/''
             @ ''Dictionaries/en-GB-10-1.bdic''),
        RestartChromium]"
proof -
  let ?argv = "[''spellcheck-installer.py'', ''en-GB-10-1'', []]"
  let ?w = "example_world [os_install_dir example_host, flatpak_install_dir example_host]"
  have ok: "status_code (http_get example_host listing_url) = 200"
    "status_code (http_get example_host (download_url (Some ''/d/en-GB-10-1.bdic''))) = 200"
    "response_text (http_get example_host (download_url (Some ''/d/en-GB-10-1.bdic'')))
       = ''QUJD''"
    "can_open_wb ?w path" for path
    by (simp_all add: example_host_def example_world_def)
  have none: "files ?w path = None" for path
    by (simp add: example_world_def)
  have given: "3 \<le> length ?argv" and empty: "?argv ! 2 = []"
    by simp_all
  note run = empty_custom_directory_is_no_custom_directory
      [where argv = ?argv and h = example_host and w = ?w and v = ?w
         and lang_code = "''en-GB-10-1''" and lang_file_binary = "[65, 66, 67]"
         and href = "Some ''/d/en-GB-10-1.bdic''" and payload = "[65, 66, 67]",
       OF given empty]
  note rest = run [THEN conjunct2, THEN conjunct2, THEN conjunct2]
  note same_files = rest [THEN conjunct2, THEN conjunct1]
  note same_output = rest [THEN conjunct2, THEN conjunct2, THEN conjunct2, THEN conjunct2,
      THEN conjunct1]
  have "status_code (http_get example_host listing_url) = 200
        \<and> map_of (fetched_listing example_host) (?argv ! 1) = Some (Some ''/d/en-GB-10-1.bdic'')
        \<and> status_code (http_get example_host (download_url (Some ''/d/en-GB-10-1.bdic''))) = 200
        \<and> b64decode (response_text
              (http_get example_host (download_url (Some ''/d/en-GB-10-1.bdic''))))
            = Some [65, 66, 67]
        \<and> (os_path_exists ?w (os_install_dir example_host) \<longrightarrow>
               can_open_wb ?w (dictionary_file_path (os_install_dir example_host) (?argv ! 1)))
        \<and> (os_path_exists ?w (flatpak_install_dir example_host) \<longrightarrow>
               can_open_wb ?w
                 (dictionary_file_path (flatpak_install_dir example_host) (?argv ! 1)))"
    by (simp add: fetched_listing_example ok b64decode_example)
  note written = rest [THEN conjunct2, THEN conjunct2, THEN conjunct2, THEN conjunct2,
      THEN conjunct2, THEN mp, OF this]
  have known: "map_of (fetched_listing example_host) (?argv ! 1) \<noteq> None"
    by (simp add: fetched_listing_example)
  show ?thesis
  proof (intro conjI)
    show "custom_directory_of example_host ?argv = Some []"
      using run [THEN conjunct1] .
    show "snd (main example_host ?argv ?w) = Inr (Some [(''en-GB-10-1'', Some ''/d/en-GB-10-1.bdic'')])"
      using written [THEN conjunct1] by (simp add: fetched_listing_example)
    show "files (fst (main example_host ?argv ?w))
            ''/home/u/.config/chromium/Dictionaries/en-GB-10-1.bdic'' = Some [65, 66, 67]"
      using example_paths by (simp add: written [THEN conjunct2, THEN conjunct1])
    show "files (fst (main example_host ?argv ?w))
            (''/home/u/.var/app/com.github.Eloston.UngoogledChromium/config/chromium/''
               @ ''Dictionaries/en-GB-10-1.bdic'') = Some [65, 66, 67]"
      using example_paths by (simp add: written [THEN conjunct2, THEN conjunct1])
    show "files (fst (main example_host ?argv ?w)) ''en-GB-10-1.bdic'' = None"
      using example_paths by (simp add: written [THEN conjunct2, THEN conjunct1] none)
    show "files (fst (main example_host ?argv ?w))
            = files (fst (main example_host [''spellcheck-installer.py'', ''en-GB-10-1''] ?w))"
      using same_files by simp
    show "run_output example_host ?argv ?w
            = UsingCustomDirectory [] #
              run_output example_host [''spellcheck-installer.py'', ''en-GB-10-1''] ?w"
      using same_output known ok(1) by simp
    show "run_output example_host ?argv ?w
     = [UsingCustomDirectory [],
        Saved ''en-GB-10-1.bdic'' ''/home/u/.config/chromium/Dictionaries/en-GB-10-1.bdic'',
        Saved ''en-GB-10-1.bdic''
          (''/home/u/.var/app/com.github.Eloston.UngoogledChromium/config/chromium/''
             @ ''Dictionaries/en-GB-10-1.bdic''),
        RestartChromium]"
      using example_paths
      by (simp add: written [THEN conjunct2, THEN conjunct2] file_ext_def)
  qed
qed

end
